theory Spec2Isabelle
  imports Complex_Main
begin

section \<open>Keys: jobs and resources (src/src/stores/citizens.ts, lines 9-19)\<close>

text \<open>
  \<^verbatim>\<open>jobKeys = ['farmers', 'merchants', 'lumberjacks', 'miners', 'builders']\<close>.
  The reactive \<^verbatim>\<open>jobs\<close> object is created with its keys in this order, so
  \<^verbatim>\<open>Object.entries(jobs)\<close> and \<^verbatim>\<open>Object.values(jobs)\<close> enumerate in this order.
\<close>

datatype job = Farmers | Merchants | Lumberjacks | Miners | Builders

definition jobKeys :: "job list" where
  "jobKeys = [Farmers, Merchants, Lumberjacks, Miners, Builders]"

fun job_name :: "job \<Rightarrow> string" where
  "job_name Farmers = ''farmers''"
| "job_name Merchants = ''merchants''"
| "job_name Lumberjacks = ''lumberjacks''"
| "job_name Miners = ''miners''"
| "job_name Builders = ''builders''"

text \<open>
  Modelled from the spec: the constant \<^verbatim>\<open>resourceKeys\<close> and the type
  \<^verbatim>\<open>ResourceKey\<close> of the resources store ("a fixed enumerated set (e.g. food, gold,
  wood, iron, labour)"). The five keys are the values of \<^verbatim>\<open>jobResourceMap\<close> in
  citizens.ts.
\<close>

datatype resource_key = Food | Gold | Wood | Iron | Labour

definition resourceKeys :: "resource_key list" where
  "resourceKeys = [Food, Gold, Wood, Iron, Labour]"

fun resource_name :: "resource_key \<Rightarrow> string" where
  "resource_name Food = ''food''"
| "resource_name Gold = ''gold''"
| "resource_name Wood = ''wood''"
| "resource_name Iron = ''iron''"
| "resource_name Labour = ''labour''"

fun jobResourceMap :: "job \<Rightarrow> resource_key" where
  "jobResourceMap Farmers = Food"
| "jobResourceMap Merchants = Gold"
| "jobResourceMap Lumberjacks = Wood"
| "jobResourceMap Miners = Iron"
| "jobResourceMap Builders = Labour"

section \<open>Number maps and resources (collaborators of the two stores)\<close>

text \<open>
  Modelled from the spec: the composable \<^verbatim>\<open>useNumberMap\<close> (the spec's Contribution
  Map): named numeric entries, \<open>set\<close> upserts the entry of an id (replacing, never
  accumulating), \<open>total\<close> is the sum of the current entries. JavaScript numbers are
  idealised as reals.
\<close>

type_synonym number_map = "(string \<times> real) list"

definition useNumberMap :: "real \<Rightarrow> number_map" where
  "useNumberMap base = [(''base'', base)]"

fun nm_set :: "string \<Rightarrow> real \<Rightarrow> number_map \<Rightarrow> number_map" where
  "nm_set k v [] = [(k, v)]"
| "nm_set k v ((k', v') # m) = (if k' = k then (k, v) # m else (k', v') # nm_set k v m)"

definition nm_get :: "number_map \<Rightarrow> string \<Rightarrow> real option" where
  "nm_get m k = map_of m k"

definition nm_total :: "number_map \<Rightarrow> real" where
  "nm_total m = sum_list (map snd m)"

text \<open>
  Modelled from the spec: one resource of the resources store: its stock
  (\<^verbatim>\<open>.value\<close>), its capacity contributions and its revenue contributions;
  \<^verbatim>\<open>.capacity\<close> reads the capacity total; \<^verbatim>\<open>setCapacity\<close> and \<^verbatim>\<open>setRevenue\<close>
  upsert one named contribution.
\<close>

record resource =
  rvalue :: real
  capacity_entries :: number_map
  revenue_entries :: number_map

definition capacity :: "resource \<Rightarrow> real" where
  "capacity r = nm_total (capacity_entries r)"

definition setCapacity :: "string \<Rightarrow> real \<Rightarrow> resource \<Rightarrow> resource" where
  "setCapacity k v r = r\<lparr>capacity_entries := nm_set k v (capacity_entries r)\<rparr>"

definition setRevenue :: "string \<Rightarrow> real \<Rightarrow> resource \<Rightarrow> resource" where
  "setRevenue k v r = r\<lparr>revenue_entries := nm_set k v (revenue_entries r)\<rparr>"

type_synonym resources_store = "resource_key \<Rightarrow> resource"

section \<open>The citizens store (src/src/stores/citizens.ts)\<close>

text \<open>
  \<^verbatim>\<open>citizenCount\<close>, the reactive \<^verbatim>\<open>jobs\<close> object and \<^verbatim>\<open>jobIncrements\<close>. Counts are
  JavaScript numbers holding integers; they are modelled as unbounded integers, so the
  decrements of the source can take them below zero as they can there.
\<close>

record citizens_store =
  citizenCount :: int
  jobs :: "job \<Rightarrow> int"
  jobIncrements :: "job \<Rightarrow> number_map"

text \<open>\<^verbatim>\<open>Object.values(jobs).reduce((acc, val) => acc + val, 0)\<close>\<close>

definition citizensWithJobs :: "citizens_store \<Rightarrow> int" where
  "citizensWithJobs cs = foldl (\<lambda>acc val. acc + val) 0 (map (jobs cs) jobKeys)"

definition idle :: "citizens_store \<Rightarrow> int" where
  "idle cs = (let idleCount = citizenCount cs - citizensWithJobs cs
              in if idleCount > 0 then idleCount else 0)"

subsection \<open>The demotion effect (lines 61-76)\<close>

text \<open>
  \<^verbatim>\<open>temporaryJobsArray.reduce((acc, [key, count]) => (count > acc.count ? { key, count } : acc),
  { key: '', count: 0 })\<close>. The accumulator's key \<^verbatim>\<open>''\<close> is \<open>None\<close>; every job key is a
  non-empty string, so \<^verbatim>\<open>!jobWithMaxCount.key\<close> holds exactly for \<open>None\<close>.
\<close>

definition jobWithMaxCount :: "(job \<times> int) list \<Rightarrow> job option \<times> int" where
  "jobWithMaxCount temporaryJobsArray =
     foldl (\<lambda>acc (key, count). if count > snd acc then (Some key, count) else acc)
           (None, 0) temporaryJobsArray"

text \<open>
  \<^verbatim>\<open>Object.entries(jobs).filter(([key]) => key !== 'idle')\<close>: an array of pairs of a key
  and the number the job holds when the array is built. The array is a plain copy:
  later writes to \<^verbatim>\<open>jobs\<close> do not change it.
\<close>

definition temporaryJobsArray :: "citizens_store \<Rightarrow> (job \<times> int) list" where
  "temporaryJobsArray cs =
     filter (\<lambda>(key, count). job_name key \<noteq> ''idle'') (map (\<lambda>key. (key, jobs cs key)) jobKeys)"

text \<open>
  The \<^verbatim>\<open>for\<close> loop. Its condition reads the computed \<^verbatim>\<open>citizensWithJobs.value\<close> and
  \<^verbatim>\<open>citizenCount.value\<close> anew at every round (a computed value is recomputed on read
  after a dependency changed), the maximum is taken over the array built before the
  loop, and the decrement is written to the reactive \<^verbatim>\<open>jobs\<close>. Not returning is the
  value \<open>None\<close>.
\<close>

partial_function (option) demotion_loop ::
  "(job \<times> int) list \<Rightarrow> int \<Rightarrow> citizens_store \<Rightarrow> citizens_store option" where
  "demotion_loop tmp i cs =
     (if i < citizensWithJobs cs - citizenCount cs then
        (case fst (jobWithMaxCount tmp) of
           None \<Rightarrow> Some cs
         | Some key \<Rightarrow> demotion_loop tmp (i + 1) (cs\<lparr>jobs := (jobs cs)(key := jobs cs key - 1)\<rparr>))
      else Some cs)"

declare demotion_loop.simps [code]

definition demotion_effect :: "citizens_store \<Rightarrow> citizens_store option" where
  "demotion_effect cs =
     (if idle cs = 0 \<and> citizensWithJobs cs > citizenCount cs
      then demotion_loop (temporaryJobsArray cs) 0 cs
      else Some cs)"

subsection \<open>assignJob (lines 103-113)\<close>

text \<open>
  The parameter \<^verbatim>\<open>count\<close> is a JavaScript number: a finite value, an infinity or NaN.
  Finite numbers are taken as reals; the function only compares \<^verbatim>\<open>count\<close> and stores
  it, so no rounding is involved. A comparison with NaN is false, and \<^verbatim>\<open>Math.min\<close>
  gives NaN as soon as one argument is NaN. (The two zeros of JavaScript are one number
  here.)
\<close>

datatype number = Fin real | PosInf | NegInf | NaN

fun js_less :: "number \<Rightarrow> number \<Rightarrow> bool" where
  "js_less NaN y = False"
| "js_less x NaN = False"
| "js_less (Fin a) (Fin b) = (a < b)"
| "js_less (Fin a) PosInf = True"
| "js_less (Fin a) NegInf = False"
| "js_less PosInf y = False"
| "js_less NegInf (Fin b) = True"
| "js_less NegInf PosInf = True"
| "js_less NegInf NegInf = False"

fun Math_min :: "number \<Rightarrow> number \<Rightarrow> number" where
  "Math_min NaN y = NaN"
| "Math_min x NaN = NaN"
| "Math_min NegInf y = NegInf"
| "Math_min x NegInf = NegInf"
| "Math_min PosInf y = y"
| "Math_min x PosInf = x"
| "Math_min (Fin a) (Fin b) = Fin (min a b)"

text \<open>
  \<^verbatim>\<open>jobs[jobName] || 0\<close>: a number is falsy when it is 0 (or NaN, which the integer
  counts of the store do not have), and then the right operand is taken.
\<close>

definition or_zero :: "int \<Rightarrow> int" where
  "or_zero x = (if x = 0 then 0 else x)"

text \<open>
  \<^verbatim>\<open>assignJob\<close> is called in a state whose counts are integers, and writes one entry
  of the reactive \<^verbatim>\<open>jobs\<close> object, and nothing else of the store. What it writes need
  not be an integer, so the result is the \<^verbatim>\<open>jobs\<close> object after the call, with its
  entries as numbers.
\<close>

function assignJob :: "job \<Rightarrow> number \<Rightarrow> citizens_store \<Rightarrow> job \<Rightarrow> number" where
  "assignJob jobName count cs =
     (if js_less count (Fin 0) then assignJob jobName (Fin 0) cs
      else (let currentCount = or_zero (jobs cs jobName);
                maxCount = currentCount + idle cs
            in (\<lambda>key. Fin (of_int (jobs cs key)))
                 (jobName := Math_min count (Fin (of_int maxCount)))))"
  by pat_completeness auto
termination
  by (relation "measure (\<lambda>(jobName, count, cs). if js_less count (Fin 0) then 1 else 0)") auto

declare assignJob.simps [simp del]

section \<open>The town hall store (src/unnamed/part_000)\<close>

text \<open>
  \<^verbatim>\<open>level\<close>, \<^verbatim>\<open>passedIntervalMs\<close>, \<^verbatim>\<open>citizenIntervalMultiplier\<close>, and whether the
  interval whose handle \<^verbatim>\<open>citizenInterval\<close> holds is running: \<^verbatim>\<open>setInterval\<close> starts
  it, \<^verbatim>\<open>clearInterval(citizenInterval)\<close> stops it.
\<close>

record townHall_store =
  level :: nat
  passedIntervalMs :: real
  citizenInterval :: bool
  citizenIntervalMultiplier :: number_map

text \<open>
  The state all stores share. The happiness store is consumed through its one number
  \<^verbatim>\<open>happinessStore.happiness\<close>.
\<close>

record game =
  citizensStore :: citizens_store
  resources :: resources_store
  townHall :: townHall_store
  happiness :: real

text \<open>
  Modelled from the spec: the level table \<^verbatim>\<open>config\<close> (config/townHall), a table from
  the level to its capacities, revenues and citizen threshold. Reading a property of
  the entry of a level the table lacks raises a TypeError.
\<close>

record level_config =
  capacities :: "resource_key \<Rightarrow> real"
  revenue :: "resource_key \<Rightarrow> real"
  citizens :: int

type_synonym config = "nat \<Rightarrow> level_config option"

datatype error = TypeError

subsection \<open>The watcher of the level (lines 21-28)\<close>

fun level_forEach :: "config \<Rightarrow> nat \<Rightarrow> resource_key list \<Rightarrow> resources_store \<Rightarrow> error + resources_store" where
  "level_forEach config lv [] res = Inr res"
| "level_forEach config lv (key # keys) res =
     (case config lv of
        None \<Rightarrow> Inl TypeError
      | Some levelConfig \<Rightarrow>
          level_forEach config lv keys
            (res(key := setRevenue ''buildings.townHall'' (revenue levelConfig key)
                          (setCapacity (resource_name key) (capacities levelConfig key) (res key)))))"

definition level_watch :: "config \<Rightarrow> game \<Rightarrow> error + game" where
  "level_watch config g =
     (case level_forEach config (level (townHall g)) resourceKeys (resources g) of
        Inl e \<Rightarrow> Inl e
      | Inr res \<Rightarrow> Inr (g\<lparr>resources := res\<rparr>))"

subsection \<open>upgradeable and upgrade (lines 30-38)\<close>

definition upgradeable :: "game \<Rightarrow> bool" where
  "upgradeable g \<longleftrightarrow>
     rvalue (resources g Food) = capacity (resources g Food)
     \<and> rvalue (resources g Gold) = capacity (resources g Gold)"

definition upgrade :: "game \<Rightarrow> game" where
  "upgrade g =
     (if \<not> upgradeable g then g
      else g\<lparr>resources := (resources g)(Gold := (resources g Gold)\<lparr>rvalue := 0\<rparr>),
             townHall := (townHall g)\<lparr>level := level (townHall g) + 1\<rparr>\<rparr>)"

subsection \<open>The recruitment period (lines 11, 40-48)\<close>

text \<open>
  The remainder operator \<^verbatim>\<open>%\<close> of JavaScript on numbers: the dividend minus the
  divisor times the quotient truncated towards zero, so the result has the sign of the
  dividend. Numbers are idealised as reals (no rounding).
\<close>

definition js_trunc :: "real \<Rightarrow> int" where
  "js_trunc x = (if 0 \<le> x then \<lfloor>x\<rfloor> else \<lceil>x\<rceil>)"

definition js_rem :: "real \<Rightarrow> real \<Rightarrow> real" where
  "js_rem n d = n - d * of_int (js_trunc (n / d))"

definition BASE_CITIZEN_INTERVAL :: real where
  "BASE_CITIZEN_INTERVAL = 60000"

definition citizenIntervalTime :: "game \<Rightarrow> real" where
  "citizenIntervalTime g =
     (let value = BASE_CITIZEN_INTERVAL * ((190 - happiness g) / 100)
      in (value - js_rem value 1000) * nm_total (citizenIntervalMultiplier (townHall g)))"

definition citizensCanBeRecruited :: "config \<Rightarrow> game \<Rightarrow> error + bool" where
  "citizensCanBeRecruited config g =
     (case config (level (townHall g)) of
        None \<Rightarrow> Inl TypeError
      | Some levelConfig \<Rightarrow> Inr (citizens levelConfig > citizenCount (citizensStore g)))"

text \<open>
  The same computation as the source runs it, in binary64 arithmetic: the exact result
  of every subtraction, division and multiplication is rounded to a number of the
  format, here by \<open>rnd\<close>. The remainder \<^verbatim>\<open>%\<close> is exact in binary64 and is not
  rounded. \<open>interval_value\<close> is the local \<^verbatim>\<open>value\<close>. With the identity for \<open>rnd\<close>
  this is \<open>citizenIntervalTime\<close>, the computation in exact arithmetic, which keeps the
  sign of the period and is used where only the sign and the comparison with the
  elapsed time matter.
\<close>

definition interval_value :: "(real \<Rightarrow> real) \<Rightarrow> game \<Rightarrow> real" where
  "interval_value rnd g = rnd (BASE_CITIZEN_INTERVAL * rnd (rnd (190 - happiness g) / 100))"

definition citizenIntervalTime_double :: "(real \<Rightarrow> real) \<Rightarrow> game \<Rightarrow> real" where
  "citizenIntervalTime_double rnd g =
     (let value = interval_value rnd g
      in rnd (rnd (value - js_rem value 1000) * nm_total (citizenIntervalMultiplier (townHall g))))"

text \<open>
  What the results below use of the rounding: an integer of magnitude up to \<open>2^53\<close> is a
  number of the format and is not changed, and the sign is kept.
\<close>

definition rounds_like_double :: "(real \<Rightarrow> real) \<Rightarrow> bool" where
  "rounds_like_double rnd \<longleftrightarrow>
     (\<forall>n::int. \<bar>n\<bar> \<le> 2 ^ 53 \<longrightarrow> rnd (of_int n) = of_int n)
     \<and> (\<forall>x. 0 \<le> x \<longrightarrow> 0 \<le> rnd x)
     \<and> (\<forall>x. x \<le> 0 \<longrightarrow> rnd x \<le> 0)"

text \<open>
  The rounding of binary64 itself, to the nearest number with a significand of 53 bits,
  a tie going to the even significand, for results in the normal range (neither
  overflow nor subnormal numbers): with \<open>2^k \<le> |x| < 2^(k+1)\<close> the numbers of the format
  around \<open>x\<close> are the multiples of \<open>2^(k-52)\<close>.
\<close>

definition round_half_even :: "real \<Rightarrow> int" where
  "round_half_even q =
     (let f = \<lfloor>q\<rfloor>; d = q - of_int f
      in if d < 1 / 2 then f else if 1 / 2 < d then f + 1 else if even f then f else f + 1)"

definition pow2 :: "int \<Rightarrow> real" where
  "pow2 e = (if 0 \<le> e then 2 ^ nat e else 1 / 2 ^ nat (- e))"

definition double_round :: "real \<Rightarrow> real" where
  "double_round x =
     (if x = 0 then 0
      else (let e = \<lfloor>log 2 \<bar>x\<bar>\<rfloor> - 52
            in of_int (round_half_even (x / pow2 e)) * pow2 e))"

text \<open>
  The period in the words of the spec: \<open>clampToWholeSeconds\<close> truncates down to the
  nearest multiple of 1000, that is, \<open>floor (v / 1000) * 1000\<close>.
\<close>

definition clampToWholeSeconds_spec :: "real \<Rightarrow> real" where
  "clampToWholeSeconds_spec v = of_int \<lfloor>v / 1000\<rfloor> * 1000"

definition periodMs_spec :: "real \<Rightarrow> real \<Rightarrow> real" where
  "periodMs_spec h m = clampToWholeSeconds_spec (60000 * (190 - h) / 100) * m"

subsection \<open>The recruitment timer (lines 50-72)\<close>

definition checkRecruitmentTime :: "game \<Rightarrow> game" where
  "checkRecruitmentTime g =
     (if passedIntervalMs (townHall g) < citizenIntervalTime g then g
      else g\<lparr>citizensStore := (citizensStore g)\<lparr>citizenCount := citizenCount (citizensStore g) + 1\<rparr>,
             townHall := (townHall g)\<lparr>passedIntervalMs := 0\<rparr>\<rparr>)"

text \<open>The callback given to \<^verbatim>\<open>setInterval\<close>.\<close>

definition interval_callback :: "game \<Rightarrow> game" where
  "interval_callback g =
     checkRecruitmentTime (g\<lparr>townHall := (townHall g)\<lparr>passedIntervalMs := passedIntervalMs (townHall g) + 100\<rparr>\<rparr>)"

text \<open>
  One period of 100 ms of the runtime's clock: the callback runs when the interval is
  running, and nothing happens when it was cleared or never set.
\<close>

definition interval_step :: "game \<Rightarrow> game" where
  "interval_step g = (if citizenInterval (townHall g) then interval_callback g else g)"

text \<open>
  The callback of \<^verbatim>\<open>watch(citizensCanBeRecruited, ...)\<close>, which the framework calls
  with the new value when the store is set up and whenever the value changed.
\<close>

definition eligibility_watch :: "bool \<Rightarrow> game \<Rightarrow> game" where
  "eligibility_watch newValue g =
     (let g1 = g\<lparr>townHall := (townHall g)\<lparr>citizenInterval := False\<rparr>\<rparr>;
          g2 = g1\<lparr>townHall := (townHall g1)\<lparr>passedIntervalMs := 0\<rparr>\<rparr>
      in if newValue then g2\<lparr>townHall := (townHall g2)\<lparr>citizenInterval := True\<rparr>\<rparr> else g2)"

section \<open>Effects of the citizens store on other stores\<close>

subsection \<open>The starvation listener (citizens.ts, lines 86-90)\<close>

definition starvation_listener :: "game \<Rightarrow> game" where
  "starvation_listener g =
     (if rvalue (resources g Food) < 0
      then g\<lparr>citizensStore := (citizensStore g)\<lparr>citizenCount := citizenCount (citizensStore g) - 1\<rparr>\<rparr>
      else g)"

text \<open>
  Modelled from the spec: the tick of one resource in the resources store (section 4.2
  of the spec): the stock grows by the revenue total, is clamped to the interval from 0
  to the capacity total, and then the tick listeners run in registration order.
\<close>

definition tick_resource :: "resource_key \<Rightarrow> (game \<Rightarrow> game) list \<Rightarrow> game \<Rightarrow> game" where
  "tick_resource key listeners g =
     (let r = resources g key;
          stock1 = rvalue r + nm_total (revenue_entries r);
          stock2 = max 0 (min stock1 (capacity r));
          g' = g\<lparr>resources := (resources g)(key := r\<lparr>rvalue := stock2\<rparr>)\<rparr>
      in foldl (\<lambda>g listener. listener g) g' listeners)"

subsection \<open>The revenue feed (citizens.ts, lines 94-101)\<close>

definition revenue_feed :: "game \<Rightarrow> game" where
  "revenue_feed g =
     g\<lparr>resources :=
         foldl (\<lambda>res (jobKey, resourceKey).
                  res(resourceKey :=
                        setRevenue (''citizens.'' @ job_name jobKey)
                          (of_int (jobs (citizensStore g) jobKey)
                             * nm_total (jobIncrements (citizensStore g) jobKey))
                          (res resourceKey)))
               (resources g)
               (map (\<lambda>jobKey. (jobKey, jobResourceMap jobKey)) jobKeys)\<rparr>"

section \<open>Example states\<close>

text \<open>
  The citizens store and the town hall store as their setup functions create them, over
  given resources and a given happiness.
\<close>

definition new_citizens :: citizens_store where
  "new_citizens =
     \<lparr>citizenCount = 5,
      jobs = (\<lambda>_. 0),
      jobIncrements = (\<lambda>_. useNumberMap 1)
        (Farmers := useNumberMap 2, Lumberjacks := useNumberMap (4 / 10), Miners := useNumberMap (1 / 10))\<rparr>"

definition new_townHall :: townHall_store where
  "new_townHall =
     \<lparr>level = 1, passedIntervalMs = 0, citizenInterval = False,
      citizenIntervalMultiplier = useNumberMap 1\<rparr>"

definition blank_resources :: resources_store where
  "blank_resources = (\<lambda>_. \<lparr>rvalue = 0, capacity_entries = [], revenue_entries = []\<rparr>)"

definition new_game :: "real \<Rightarrow> game" where
  "new_game h =
     \<lparr>citizensStore = new_citizens, resources = blank_resources,
      townHall = new_townHall, happiness = h\<rparr>"

text \<open>
  The citizens of the spec's demotion example (3 farmers, 3 miners, 1 builder), after
  the population dropped from 7 to 4.
\<close>

definition demotion_example :: citizens_store where
  "demotion_example =
     new_citizens\<lparr>citizenCount := 4, jobs := (\<lambda>_. 0)(Farmers := 3, Miners := 3, Builders := 1)\<rparr>"

text \<open>Resources whose food stock is half the food capacity.\<close>

definition half_full_resources :: resources_store where
  "half_full_resources =
     blank_resources(Food := \<lparr>rvalue = 50, capacity_entries = [(''food'', 100)], revenue_entries = []\<rparr>)"

text \<open>A level table with an entry for level 1 only.\<close>

definition example_config :: config where
  "example_config =
     Map.empty(1 \<mapsto> \<lparr>capacities = (\<lambda>_. 100), revenue = (\<lambda>_. 1), citizens = 10\<rparr>)"

text \<open>A state with one farmer, on resources whose food stock is below zero.\<close>

definition starving_game :: game where
  "starving_game =
     (new_game 90)
       \<lparr>citizensStore := new_citizens\<lparr>jobs := (\<lambda>_. 0)(Farmers := 1)\<rparr>,
        resources := blank_resources(Food := \<lparr>rvalue = - 3, capacity_entries = [(''food'', 100)],
                                               revenue_entries = [(''citizens.farmers'', 7)]\<rparr>)\<rparr>"

section \<open>The demotion effect: what one run does\<close>

lemma citizensWithJobs_sum:
  "citizensWithJobs cs =
     jobs cs Farmers + jobs cs Merchants + jobs cs Lumberjacks + jobs cs Miners + jobs cs Builders"
  by (simp add: citizensWithJobs_def jobKeys_def)

lemma citizensWithJobs_decrement:
  "citizensWithJobs (cs\<lparr>jobs := (jobs cs)(key := jobs cs key - 1)\<rparr>) = citizensWithJobs cs - 1"
  by (cases key) (simp_all add: citizensWithJobs_sum)

lemma demotion_loop_break:
  "fst (jobWithMaxCount tmp) = None \<Longrightarrow> demotion_loop tmp i cs = Some cs"
  by (subst demotion_loop.simps) simp

lemma demotion_loop_returns: "\<exists>cs'. demotion_loop tmp i cs = Some cs'"
proof (induction "nat (citizensWithJobs cs - citizenCount cs - i)" arbitrary: i cs rule: less_induct)
  case less
  show ?case
  proof (cases "i < citizensWithJobs cs - citizenCount cs")
    case False
    then show ?thesis by (subst demotion_loop.simps) simp
  next
    case running: True
    show ?thesis
    proof (cases "fst (jobWithMaxCount tmp)")
      case None
      then show ?thesis by (simp add: demotion_loop_break)
    next
      case (Some key)
      let ?cs = "cs\<lparr>jobs := (jobs cs)(key := jobs cs key - 1)\<rparr>"
      have "nat (citizensWithJobs ?cs - citizenCount ?cs - (i + 1))
              < nat (citizensWithJobs cs - citizenCount cs - i)"
        using running by (simp add: citizensWithJobs_decrement)
      from less[OF this] obtain cs' where "demotion_loop tmp (i + 1) ?cs = Some cs'"
        by blast
      with running Some show ?thesis by (subst demotion_loop.simps) simp
    qed
  qed
qed

lemma demotion_loop_result:
  assumes "fst (jobWithMaxCount tmp) = Some key"
  shows "demotion_loop tmp i cs
           = Some (cs\<lparr>jobs := (jobs cs)(key := jobs cs key
                      - max 0 ((citizensWithJobs cs - citizenCount cs - i + 1) div 2))\<rparr>)"
proof (induction "nat (citizensWithJobs cs - citizenCount cs - i)" arbitrary: i cs rule: less_induct)
  case less
  show ?case
  proof (cases "i < citizensWithJobs cs - citizenCount cs")
    case False
    then have "max 0 ((citizensWithJobs cs - citizenCount cs - i + 1) div 2) = 0"
      by simp
    with False show ?thesis by (subst demotion_loop.simps) simp
  next
    case running: True
    let ?cs = "cs\<lparr>jobs := (jobs cs)(key := jobs cs key - 1)\<rparr>"
    define d where "d = max 0 ((citizensWithJobs cs - citizenCount cs - i + 1) div 2)"
    define d' where "d' = max 0 ((citizensWithJobs ?cs - citizenCount ?cs - (i + 1) + 1) div 2)"
    have "nat (citizensWithJobs ?cs - citizenCount ?cs - (i + 1))
            < nat (citizensWithJobs cs - citizenCount cs - i)"
      using running by (simp add: citizensWithJobs_decrement)
    from less[OF this]
    have rest: "demotion_loop tmp (i + 1) ?cs = Some (?cs\<lparr>jobs := (jobs ?cs)(key := jobs ?cs key - d')\<rparr>)"
      unfolding d'_def .
    have d: "d = 1 + d'"
      using running unfolding d_def d'_def by (simp add: citizensWithJobs_decrement max_def)
    have "?cs\<lparr>jobs := (jobs ?cs)(key := jobs ?cs key - d')\<rparr>
            = cs\<lparr>jobs := (jobs cs)(key := jobs cs key - d)\<rparr>"
      by (simp add: d algebra_simps)
    with rest have "demotion_loop tmp (i + 1) ?cs = Some (cs\<lparr>jobs := (jobs cs)(key := jobs cs key - d)\<rparr>)"
      by (simp only:)
    then have "demotion_loop tmp i cs = Some (cs\<lparr>jobs := (jobs cs)(key := jobs cs key - d)\<rparr>)"
      using running assms by (subst demotion_loop.simps) simp
    then show ?thesis unfolding d_def .
  qed
qed

text \<open>
  What one run of the effect does when the assigned counts exceed the citizens: when no
  job held a positive count at the start nothing changes, and otherwise the job the
  maximum search finds in the array built at the start loses half of the excess,
  rounded up, in one piece.
\<close>

lemma demotion_effect_result:
  assumes "citizenCount cs < citizensWithJobs cs"
  shows "demotion_effect cs =
           (case fst (jobWithMaxCount (temporaryJobsArray cs)) of
              None \<Rightarrow> Some cs
            | Some key \<Rightarrow>
                Some (cs\<lparr>jobs := (jobs cs)(key := jobs cs key
                        - (citizensWithJobs cs - citizenCount cs + 1) div 2)\<rparr>))"
proof -
  from assms have guard: "idle cs = 0 \<and> citizensWithJobs cs > citizenCount cs"
    by (simp add: idle_def Let_def)
  from assms have "max 0 ((citizensWithJobs cs - citizenCount cs - 0 + 1) div 2)
                     = (citizensWithJobs cs - citizenCount cs + 1) div 2"
    by simp
  with guard show ?thesis
    by (simp add: demotion_effect_def demotion_loop_break demotion_loop_result split: option.split)
qed

lemma demotion_effect_idle:
  "citizensWithJobs cs \<le> citizenCount cs \<Longrightarrow> demotion_effect cs = Some cs"
  by (simp add: demotion_effect_def)

lemma jobWithMaxCount_unfold:
  "jobWithMaxCount (temporaryJobsArray cs) =
     (let a1 = (if jobs cs Farmers > 0 then (Some Farmers, jobs cs Farmers) else (None, 0));
          a2 = (if jobs cs Merchants > snd a1 then (Some Merchants, jobs cs Merchants) else a1);
          a3 = (if jobs cs Lumberjacks > snd a2 then (Some Lumberjacks, jobs cs Lumberjacks) else a2);
          a4 = (if jobs cs Miners > snd a3 then (Some Miners, jobs cs Miners) else a3)
      in if jobs cs Builders > snd a4 then (Some Builders, jobs cs Builders) else a4)"
  by (simp add: jobWithMaxCount_def temporaryJobsArray_def jobKeys_def Let_def)

lemma jobWithMaxCount_Some:
  assumes "fst (jobWithMaxCount (temporaryJobsArray cs)) = Some key"
  shows "0 < jobs cs key \<and> jobs cs j \<le> jobs cs key"
  using assms unfolding jobWithMaxCount_unfold Let_def
  by (cases j) (auto split: if_splits)

lemma jobWithMaxCount_None:
  assumes "fst (jobWithMaxCount (temporaryJobsArray cs)) = None"
  shows "jobs cs j \<le> 0"
  using assms unfolding jobWithMaxCount_unfold Let_def
  by (cases j) (auto split: if_splits)

text \<open>
  With an excess of exactly one citizen, as one starvation tick leaves it, one run takes
  one citizen from a job that holds the largest count, and the sum of the assigned
  counts is the citizen count again.
\<close>

lemma demotion_effect_excess_one:
  assumes "citizensWithJobs cs = citizenCount cs + 1"
    and "fst (jobWithMaxCount (temporaryJobsArray cs)) = Some key"
  shows "demotion_effect cs = Some (cs\<lparr>jobs := (jobs cs)(key := jobs cs key - 1)\<rparr>)"
    and "citizensWithJobs (cs\<lparr>jobs := (jobs cs)(key := jobs cs key - 1)\<rparr>) = citizenCount cs"
    and "jobs cs j \<le> jobs cs key"
proof -
  from assms(1) have "citizenCount cs < citizensWithJobs cs" by simp
  from demotion_effect_result[OF this] assms
  show "demotion_effect cs = Some (cs\<lparr>jobs := (jobs cs)(key := jobs cs key - 1)\<rparr>)"
    by simp
  show "citizensWithJobs (cs\<lparr>jobs := (jobs cs)(key := jobs cs key - 1)\<rparr>) = citizenCount cs"
    using assms(1) by (simp add: citizensWithJobs_decrement)
  show "jobs cs j \<le> jobs cs key"
    using jobWithMaxCount_Some[OF assms(2)] by simp
qed

text \<open>
  C9. The demotion correction terminates for every input state: the loop returns from
  every array, counter and state, and so does the effect around it.
\<close>

theorem demotion_effect_terminates:
  "(\<forall>tmp i. \<exists>cs'. demotion_loop tmp i cs = Some cs') \<and> (\<exists>cs'. demotion_effect cs = Some cs')"
  by (simp add: demotion_effect_def demotion_loop_returns)

text \<open>
  C1. On the spec's own example (farmers 3, miners 3, builders 1, the population dropped
  from 7 to 4) one run of the demotion effect decrements twice, not three times, and
  both times the farmers: the second time the farmers hold 2 and the miners 3. The sum
  of the assigned counts stays at 5, above the 4 citizens. A second run of the effect
  would take one miner: the sum would then be 4, with the farmers at 1 and the miners
  at 2.
\<close>

theorem demotion_effect_example:
  "demotion_effect demotion_example
     = Some (demotion_example\<lparr>jobs := (\<lambda>_. 0)(Farmers := 1, Miners := 3, Builders := 1)\<rparr>)
   \<and> citizensWithJobs (demotion_example\<lparr>jobs := (\<lambda>_. 0)(Farmers := 1, Miners := 3, Builders := 1)\<rparr>) = 5
   \<and> citizenCount demotion_example = 4
   \<and> demotion_effect (demotion_example\<lparr>jobs := (\<lambda>_. 0)(Farmers := 1, Miners := 3, Builders := 1)\<rparr>)
       = Some (demotion_example\<lparr>jobs := (\<lambda>_. 0)(Farmers := 1, Miners := 2, Builders := 1)\<rparr>)"
  by (simp add: demotion_effect_def demotion_example_def idle_def citizensWithJobs_sum
        temporaryJobsArray_def jobKeys_def jobWithMaxCount_def demotion_loop.simps fun_upd_twist)

section \<open>assignJob\<close>

lemma idle_nonneg: "0 \<le> idle cs"
  by (simp add: idle_def Let_def)

lemma assignJob_not_negative:
  "\<not> js_less count (Fin 0) \<Longrightarrow>
   assignJob j count cs
     = (\<lambda>key. Fin (of_int (jobs cs key)))(j := Math_min count (Fin (of_int (jobs cs j + idle cs))))"
  by (subst assignJob.simps) (simp add: or_zero_def)

lemma assignJob_negative:
  "js_less count (Fin 0) \<Longrightarrow>
   assignJob j count cs
     = (\<lambda>key. Fin (of_int (jobs cs key)))(j := Fin (min 0 (of_int (jobs cs j + idle cs))))"
proof -
  assume "js_less count (Fin 0)"
  then have "assignJob j count cs = assignJob j (Fin 0) cs"
    by (subst assignJob.simps) simp
  then show ?thesis by (simp add: assignJob_not_negative)
qed

lemma assignJob_Fin:
  "assignJob j (Fin x) cs
     = (\<lambda>key. Fin (of_int (jobs cs key)))(j := Fin (min (max x 0) (of_int (jobs cs j + idle cs))))"
  by (cases "x < 0") (simp_all add: assignJob_negative assignJob_not_negative max_def)

lemma assignJob_PosInf:
  "assignJob j PosInf cs
     = (\<lambda>key. Fin (of_int (jobs cs key)))(j := Fin (of_int (jobs cs j + idle cs)))"
  by (simp add: assignJob_not_negative)

lemma assignJob_NegInf:
  "assignJob j NegInf cs
     = (\<lambda>key. Fin (of_int (jobs cs key)))(j := Fin (min 0 (of_int (jobs cs j + idle cs))))"
  by (simp add: assignJob_negative)

lemma assignJob_NaN:
  "assignJob j NaN cs = (\<lambda>key. Fin (of_int (jobs cs key)))(j := NaN)"
  by (simp add: assignJob_not_negative)

text \<open>
  For an integer count the call stays within the integer counts of the store: the
  \<^verbatim>\<open>jobs\<close> object after the call is the one before it with the clamped count at the
  job.
\<close>

lemma assignJob_integer:
  "assignJob j (Fin (of_int c)) cs
     = (\<lambda>key. Fin (of_int (((jobs cs)(j := min (max c 0) (jobs cs j + idle cs))) key)))"
  by (rule ext) (simp add: assignJob_Fin min_def max_def)

text \<open>
  C2, as stated: for every number \<open>count\<close> the job gets \<open>count\<close> clamped to the interval
  from 0 to the current count plus idle. With 2 idle citizens and no farmers, the count
  NaN is not negative for \<^verbatim>\<open><\<close>, and \<^verbatim>\<open>Math.min\<close> of NaN and 2 is NaN: the farmers'
  count after the call is NaN, which is no number of the interval from 0 to 2.
\<close>

theorem assignJob_NaN_counterexample:
  "idle (new_citizens\<lparr>citizenCount := 2\<rparr>) = 2
   \<and> jobs (new_citizens\<lparr>citizenCount := 2\<rparr>) Farmers = 0
   \<and> assignJob Farmers NaN (new_citizens\<lparr>citizenCount := 2\<rparr>) Farmers = NaN"
  by (simp add: assignJob_NaN new_citizens_def idle_def citizensWithJobs_sum)

text \<open>
  C2, amended. For every job and every number \<open>count\<close> other than NaN, \<open>assignJob\<close>
  writes the entry of that job and leaves the other entries as they are, and it has no
  error branch. In a state of the data model (the job's count is not negative) the entry
  written is a finite number between 0 and the current count plus idle: 0 for a
  negative \<open>count\<close>, the current count plus idle for a \<open>count\<close> above it, and \<open>count\<close>
  itself otherwise. With 2 idle citizens and no farmers, \<open>assignJob Farmers 100\<close> gives
  2 farmers.
\<close>

theorem assignJob_clamps:
  "count \<noteq> NaN \<longrightarrow>
     (\<forall>key. key \<noteq> j \<longrightarrow> assignJob j count cs key = Fin (of_int (jobs cs key)))
   \<and> (0 \<le> jobs cs j \<longrightarrow>
         (\<exists>x. assignJob j count cs j = Fin x \<and> 0 \<le> x \<and> x \<le> of_int (jobs cs j + idle cs))
       \<and> (js_less count (Fin 0) \<longrightarrow> assignJob j count cs j = Fin 0)
       \<and> (js_less (Fin (of_int (jobs cs j + idle cs))) count \<longrightarrow>
             assignJob j count cs j = Fin (of_int (jobs cs j + idle cs)))
       \<and> (\<not> js_less count (Fin 0) \<and> \<not> js_less (Fin (of_int (jobs cs j + idle cs))) count \<longrightarrow>
             assignJob j count cs j = count))
   \<and> (idle cs = 2 \<and> jobs cs Farmers = 0 \<longrightarrow> assignJob Farmers (Fin 100) cs Farmers = Fin 2)"
proof (cases count)
  case (Fin x)
  have "0 \<le> jobs cs j \<Longrightarrow> (0::real) \<le> of_int (jobs cs j + idle cs)"
    using idle_nonneg[of cs] by simp
  with Fin show ?thesis
    by (auto simp: assignJob_Fin min_def max_def)
next
  case PosInf
  have "0 \<le> jobs cs j \<Longrightarrow> (0::real) \<le> of_int (jobs cs j + idle cs)"
    using idle_nonneg[of cs] by simp
  with PosInf show ?thesis
    by (auto simp: assignJob_PosInf assignJob_Fin)
next
  case NegInf
  have "0 \<le> jobs cs j \<Longrightarrow> (0::real) \<le> of_int (jobs cs j + idle cs)"
    using idle_nonneg[of cs] by simp
  with NegInf show ?thesis
    by (auto simp: assignJob_NegInf assignJob_Fin min_def)
next
  case NaN
  then show ?thesis by simp
qed

theorem assignJob_clamps_witness:
  "0 \<le> jobs (new_citizens\<lparr>citizenCount := 2\<rparr>) Farmers
   \<and> idle (new_citizens\<lparr>citizenCount := 2\<rparr>) = 2
   \<and> assignJob Farmers (Fin 100) (new_citizens\<lparr>citizenCount := 2\<rparr>) Farmers = Fin 2
   \<and> assignJob Farmers (Fin (- 7)) (new_citizens\<lparr>citizenCount := 2\<rparr>) Farmers = Fin 0
   \<and> assignJob Farmers (Fin (3 / 2)) (new_citizens\<lparr>citizenCount := 2\<rparr>) Farmers = Fin (3 / 2)
   \<and> assignJob Farmers PosInf (new_citizens\<lparr>citizenCount := 2\<rparr>) Farmers = Fin 2
   \<and> assignJob Farmers NegInf (new_citizens\<lparr>citizenCount := 2\<rparr>) Farmers = Fin 0
   \<and> assignJob Farmers (Fin 100) (new_citizens\<lparr>citizenCount := 2\<rparr>) Miners = Fin 0"
proof -
  let ?cs = "new_citizens\<lparr>citizenCount := 2\<rparr>"
  have state: "0 \<le> jobs ?cs Farmers" "idle ?cs = 2" "jobs ?cs Farmers = 0" "jobs ?cs Miners = 0"
    by (simp_all add: new_citizens_def idle_def citizensWithJobs_sum)
  from assignJob_clamps[of "Fin 100" Farmers ?cs] state
  have a: "assignJob Farmers (Fin 100) ?cs Farmers = Fin 2"
    and f: "assignJob Farmers (Fin 100) ?cs Miners = Fin 0"
    by simp_all
  from assignJob_clamps[of "Fin (- 7)" Farmers ?cs] state
  have b: "assignJob Farmers (Fin (- 7)) ?cs Farmers = Fin 0" by simp
  from assignJob_clamps[of "Fin (3 / 2)" Farmers ?cs] state
  have c: "assignJob Farmers (Fin (3 / 2)) ?cs Farmers = Fin (3 / 2)" by simp
  from assignJob_clamps[of PosInf Farmers ?cs] state
  have d: "assignJob Farmers PosInf ?cs Farmers = Fin 2" by simp
  from assignJob_clamps[of NegInf Farmers ?cs] state
  have e: "assignJob Farmers NegInf ?cs Farmers = Fin 0" by simp
  from state a b c d e f show ?thesis by simp
qed

section \<open>The town hall: upgrade\<close>

text \<open>
  C3. \<open>upgradeable\<close> holds exactly when the food stock equals the food capacity total
  and the gold stock equals the gold capacity total. When it does not hold, \<open>upgrade\<close>
  returns the state as it is. When it holds, \<open>upgrade\<close> sets the gold stock to 0 and
  raises the level by exactly 1, and writes nothing else.
\<close>

theorem upgrade_gated:
  "(upgradeable g \<longleftrightarrow>
      rvalue (resources g Food) = nm_total (capacity_entries (resources g Food))
      \<and> rvalue (resources g Gold) = nm_total (capacity_entries (resources g Gold)))
   \<and> (\<not> upgradeable g \<longrightarrow> upgrade g = g)
   \<and> (upgradeable g \<longrightarrow>
         rvalue (resources (upgrade g) Gold) = 0
       \<and> level (townHall (upgrade g)) = level (townHall g) + 1
       \<and> capacity_entries (resources (upgrade g) Gold) = capacity_entries (resources g Gold)
       \<and> revenue_entries (resources (upgrade g) Gold) = revenue_entries (resources g Gold)
       \<and> (\<forall>key. key \<noteq> Gold \<longrightarrow> resources (upgrade g) key = resources g key)
       \<and> citizensStore (upgrade g) = citizensStore g
       \<and> happiness (upgrade g) = happiness g
       \<and> passedIntervalMs (townHall (upgrade g)) = passedIntervalMs (townHall g)
       \<and> citizenInterval (townHall (upgrade g)) = citizenInterval (townHall g)
       \<and> citizenIntervalMultiplier (townHall (upgrade g)) = citizenIntervalMultiplier (townHall g))"
  by (simp add: upgradeable_def upgrade_def capacity_def)

theorem upgrade_gated_witness:
  "upgradeable (new_game 90)
   \<and> rvalue (resources (upgrade (new_game 90)) Gold) = 0
   \<and> level (townHall (upgrade (new_game 90))) = 2
   \<and> \<not> upgradeable ((new_game 90)\<lparr>resources := half_full_resources\<rparr>)
   \<and> upgrade ((new_game 90)\<lparr>resources := half_full_resources\<rparr>)
       = (new_game 90)\<lparr>resources := half_full_resources\<rparr>"
  using upgrade_gated[of "new_game 90"]
        upgrade_gated[of "(new_game 90)\<lparr>resources := half_full_resources\<rparr>"]
  by (simp add: new_game_def new_townHall_def blank_resources_def half_full_resources_def nm_total_def)

section \<open>The town hall: the recruitment period\<close>

lemma citizenIntervalTime_value:
  "citizenIntervalTime g =
     of_int (js_trunc (60000 * (190 - happiness g) / 100 / 1000)) * 1000
       * nm_total (citizenIntervalMultiplier (townHall g))"
  by (simp add: citizenIntervalTime_def js_rem_def BASE_CITIZEN_INTERVAL_def Let_def)

subsection \<open>Binary64 rounding\<close>

lemma pow2_powr: "pow2 e = 2 powr of_int e"
  by (simp add: pow2_def powr_int)

lemma pow2_pos: "0 < pow2 e"
  by (simp add: pow2_def)

lemma round_half_even_int [simp]: "round_half_even (of_int z) = z"
  by (simp add: round_half_even_def)

lemma round_half_even_nonneg: "0 \<le> q \<Longrightarrow> 0 \<le> round_half_even q"
  by (auto simp: round_half_even_def Let_def)

lemma round_half_even_nonpos: "q \<le> 0 \<Longrightarrow> round_half_even q \<le> 0"
  unfolding round_half_even_def Let_def
  by (auto split: if_splits)

lemma double_round_nonneg: "0 \<le> x \<Longrightarrow> 0 \<le> double_round x"
  using pow2_pos by (simp add: double_round_def Let_def round_half_even_nonneg less_imp_le)

lemma double_round_nonpos: "x \<le> 0 \<Longrightarrow> double_round x \<le> 0"
  using pow2_pos
  by (simp add: double_round_def Let_def round_half_even_nonpos mult_le_0_iff divide_le_0_iff less_imp_le)

lemma double_round_eval:
  assumes "x \<noteq> 0" and "pow2 k \<le> \<bar>x\<bar>" and "\<bar>x\<bar> < pow2 (k + 1)"
  shows "double_round x = of_int (round_half_even (x / pow2 (k - 52))) * pow2 (k - 52)"
proof -
  have "\<lfloor>log 2 \<bar>x\<bar>\<rfloor> = k"
    using assms by (subst floor_log_eq_powr_iff) (simp_all add: pow2_powr)
  with assms(1) show ?thesis by (simp add: double_round_def Let_def)
qed

lemma double_round_int:
  assumes "\<bar>n\<bar> \<le> 2 ^ 53"
  shows "double_round (of_int n) = of_int n"
proof (cases "n = 0")
  case True
  then show ?thesis by (simp add: double_round_def)
next
  case False
  define k where "k = \<lfloor>log 2 \<bar>real_of_int n\<bar>\<rfloor>"
  have pos: "0 < \<bar>real_of_int n\<bar>" using False by simp
  have bounds: "2 powr of_int k \<le> \<bar>real_of_int n\<bar>" "\<bar>real_of_int n\<bar> < 2 powr of_int (k + 1)"
    using floor_log_eq_powr_iff[of "\<bar>real_of_int n\<bar>" 2 k] pos by (simp_all add: k_def)
  have "1 \<le> \<bar>real_of_int n\<bar>" using False by (simp add: of_int_abs[symmetric] del: of_int_abs)
  then have "0 \<le> log 2 \<bar>real_of_int n\<bar>" by simp
  then have k0: "0 \<le> k" by (simp add: k_def)
  have "\<bar>real_of_int n\<bar> \<le> 2 ^ 53"
    using assms by (metis of_int_abs of_int_le_iff of_int_numeral of_int_power)
  have k53: "k \<le> 53"
  proof (rule ccontr)
    assume "\<not> k \<le> 53"
    then have "real_of_int 54 \<le> real_of_int k" by simp
    then have "(2::real) powr of_int 54 \<le> 2 powr of_int k"
      by (intro powr_mono) simp_all
    moreover have "(2::real) powr of_int 54 = 2 ^ 54" by (simp add: powr_int)
    ultimately show False
      using bounds(1) \<open>\<bar>real_of_int n\<bar> \<le> 2 ^ 53\<close> by simp
  qed
  have eq: "double_round (of_int n) = of_int (round_half_even (of_int n / pow2 (k - 52))) * pow2 (k - 52)"
    using False by (simp add: double_round_def Let_def k_def)
  show ?thesis
  proof (cases "k \<le> 52")
    case True
    then have p: "pow2 (k - 52) = 1 / 2 ^ nat (52 - k)"
      by (cases "k = 52") (simp_all add: pow2_def)
    have "real_of_int n / pow2 (k - 52) = of_int (n * 2 ^ nat (52 - k))"
      by (simp add: p)
    then have "round_half_even (of_int n / pow2 (k - 52)) = n * 2 ^ nat (52 - k)"
      by (simp only: round_half_even_int)
    with eq show ?thesis by (simp add: p)
  next
    case False
    with k53 have k: "k = 53" by simp
    with bounds(1) \<open>\<bar>real_of_int n\<bar> \<le> 2 ^ 53\<close> have "\<bar>real_of_int n\<bar> = 2 ^ 53"
      by (simp add: powr_int)
    then have "real_of_int \<bar>n\<bar> = real_of_int (2 ^ 53)" by simp
    then have "\<bar>n\<bar> = 2 ^ 53" by (simp only: of_int_eq_iff)
    then have "n = 2 ^ 53 \<or> n = - (2 ^ 53)"
      by (auto simp: abs_if split: if_splits)
    then show ?thesis
    proof
      assume "n = 2 ^ 53"
      have "real_of_int n / pow2 (k - 52) = of_int (2 ^ 52)"
        by (simp add: k pow2_def \<open>n = 2 ^ 53\<close>)
      then have "round_half_even (of_int n / pow2 (k - 52)) = 2 ^ 52"
        by (simp only: round_half_even_int)
      with eq show ?thesis by (simp add: k pow2_def \<open>n = 2 ^ 53\<close>)
    next
      assume "n = - (2 ^ 53)"
      have "real_of_int n / pow2 (k - 52) = of_int (- (2 ^ 52))"
        by (simp add: k pow2_def \<open>n = - (2 ^ 53)\<close>)
      then have "round_half_even (of_int n / pow2 (k - 52)) = - (2 ^ 52)"
        by (simp only: round_half_even_int)
      with eq show ?thesis by (simp add: k pow2_def \<open>n = - (2 ^ 53)\<close>)
    qed
  qed
qed

lemma rounds_like_double_double_round: "rounds_like_double double_round"
  by (simp add: rounds_like_double_def double_round_int double_round_nonneg double_round_nonpos)

lemma rounds_like_double_exact: "rounds_like_double (\<lambda>x. x)"
  by (simp add: rounds_like_double_def)

lemma interval_value_sign:
  assumes "rounds_like_double rnd"
  shows "happiness g \<le> 190 \<Longrightarrow> 0 \<le> interval_value rnd g"
    and "190 \<le> happiness g \<Longrightarrow> interval_value rnd g \<le> 0"
proof -
  from assms have up: "\<And>x. 0 \<le> x \<Longrightarrow> 0 \<le> rnd x" and down: "\<And>x. x \<le> 0 \<Longrightarrow> rnd x \<le> 0"
    by (simp_all add: rounds_like_double_def)
  show "0 \<le> interval_value rnd g" if "happiness g \<le> 190"
  proof -
    from that have "0 \<le> rnd (190 - happiness g)" by (simp add: up)
    then have "0 \<le> rnd (rnd (190 - happiness g) / 100)" by (simp add: up)
    then show ?thesis by (simp add: interval_value_def BASE_CITIZEN_INTERVAL_def up)
  qed
  show "interval_value rnd g \<le> 0" if "190 \<le> happiness g"
  proof -
    from that have "rnd (190 - happiness g) \<le> 0" by (simp add: down)
    then have "rnd (rnd (190 - happiness g) / 100) \<le> 0" by (simp add: down divide_le_0_iff)
    then show ?thesis
      by (simp add: interval_value_def BASE_CITIZEN_INTERVAL_def down mult_le_0_iff)
  qed
qed

lemma js_trunc_abs_le: "\<bar>real_of_int (js_trunc x)\<bar> \<le> \<bar>x\<bar>"
proof (cases "0 \<le> x")
  case True
  then have "0 \<le> \<lfloor>x\<rfloor>" by simp
  with True show ?thesis by (simp add: js_trunc_def)
next
  case False
  then have "\<lceil>x\<rceil> \<le> 0" by (simp add: ceiling_le_iff)
  moreover have "x \<le> of_int \<lceil>x\<rceil>" by simp
  ultimately show ?thesis using False by (simp add: js_trunc_def)
qed

lemma whole_seconds_exact:
  assumes "rounds_like_double rnd" and "\<bar>v\<bar> \<le> 2 ^ 53"
  shows "rnd (v - js_rem v 1000) = of_int (js_trunc (v / 1000)) * 1000"
proof -
  have "\<bar>real_of_int (js_trunc (v / 1000))\<bar> \<le> \<bar>v / 1000\<bar>" by (rule js_trunc_abs_le)
  then have "\<bar>real_of_int (js_trunc (v / 1000) * 1000)\<bar> \<le> \<bar>v\<bar>" by simp
  with assms(2) have "\<bar>real_of_int (js_trunc (v / 1000) * 1000)\<bar> \<le> 2 ^ 53" by linarith
  then have "\<bar>js_trunc (v / 1000) * 1000\<bar> \<le> 2 ^ 53"
    by (metis of_int_abs of_int_le_iff of_int_numeral of_int_power)
  moreover from assms(1) have "\<And>n::int. \<bar>n\<bar> \<le> 2 ^ 53 \<Longrightarrow> rnd (of_int n) = of_int n"
    by (simp add: rounds_like_double_def)
  ultimately
  have "rnd (of_int (js_trunc (v / 1000) * 1000)) = of_int (js_trunc (v / 1000) * 1000)"
    by blast
  moreover have "v - js_rem v 1000 = of_int (js_trunc (v / 1000) * 1000)"
    by (simp add: js_rem_def)
  ultimately show ?thesis by simp
qed

lemma js_trunc_nonpos: "x \<le> 0 \<Longrightarrow> js_trunc x \<le> 0"
proof (cases "x = 0")
  case True
  then show ?thesis by (simp add: js_trunc_def)
next
  case False
  assume "x \<le> 0"
  with False have "\<not> 0 \<le> x" by simp
  moreover from \<open>x \<le> 0\<close> have "\<lceil>x\<rceil> \<le> 0" by (simp add: ceiling_le_iff)
  ultimately show ?thesis by (simp add: js_trunc_def)
qed

lemma citizenIntervalTime_double_nonpos:
  assumes "rounds_like_double rnd" and "190 \<le> happiness g"
    and "nm_total (citizenIntervalMultiplier (townHall g)) = 1"
  shows "citizenIntervalTime_double rnd g \<le> 0"
proof -
  from assms(1) have down: "\<And>x. x \<le> 0 \<Longrightarrow> rnd x \<le> 0"
    by (simp add: rounds_like_double_def)
  let ?v = "interval_value rnd g"
  have "?v \<le> 0"
    using interval_value_sign(2)[OF assms(1,2)] .
  then have "js_trunc (?v / 1000) \<le> 0"
    by (intro js_trunc_nonpos) simp
  then have "real_of_int (js_trunc (?v / 1000)) * 1000 \<le> 0"
    by simp
  moreover have "?v - js_rem ?v 1000 = real_of_int (js_trunc (?v / 1000)) * 1000"
    by (simp add: js_rem_def)
  ultimately have "?v - js_rem ?v 1000 \<le> 0" by simp
  then have "rnd (?v - js_rem ?v 1000) \<le> 0"
    by (rule down)
  then have "rnd (rnd (?v - js_rem ?v 1000)) \<le> 0"
    by (rule down)
  with assms(3) show ?thesis
    by (simp add: citizenIntervalTime_double_def Let_def)
qed

lemma citizenIntervalTime_exact:
  "citizenIntervalTime g = citizenIntervalTime_double (\<lambda>x. x) g"
  by (simp add: citizenIntervalTime_def citizenIntervalTime_double_def interval_value_def Let_def)

subsection \<open>The period at happiness -15 and at happiness 190.5\<close>

lemma double_round_205: "double_round (205 / 100) = 4616189618054758 / 2 ^ 51"
proof -
  have "double_round (205 / 100)
          = of_int (round_half_even ((205 / 100) / pow2 (1 - 52))) * pow2 (1 - 52)"
    by (rule double_round_eval) (simp_all add: pow2_def)
  then show ?thesis
    by (simp add: round_half_even_def Let_def pow2_def)
qed

lemma double_round_123: "double_round (60000 * (4616189618054758 / 2 ^ 51)) = 8452495638527999 / 2 ^ 36"
proof -
  have "double_round (60000 * (4616189618054758 / 2 ^ 51))
      = of_int (round_half_even ((60000 * (4616189618054758 / 2 ^ 51)) / pow2 (16 - 52))) * pow2 (16 - 52)"
    by (rule double_round_eval) (simp_all add: pow2_def)
  then show ?thesis
    by (simp add: round_half_even_def Let_def pow2_def)
qed

lemma interval_value_minus_15:
  "interval_value double_round (new_game (- 15)) = 8452495638527999 / 2 ^ 36"
proof -
  have e: "double_round 205 = 205" using double_round_int[of 205] by simp
  have "interval_value double_round (new_game (- 15))
          = double_round (60000 * double_round (double_round 205 / 100))"
    by (simp add: interval_value_def BASE_CITIZEN_INTERVAL_def new_game_def)
  also have "\<dots> = double_round (60000 * double_round (205 / 100))"
    by (simp only: e)
  also have "\<dots> = double_round (60000 * (4616189618054758 / 2 ^ 51))"
    by (simp only: double_round_205)
  also have "\<dots> = 8452495638527999 / 2 ^ 36"
    by (rule double_round_123)
  finally show ?thesis .
qed

lemma double_round_half: "double_round (- (1 / 2)) = - (1 / 2)"
proof -
  have "double_round (- (1 / 2))
          = of_int (round_half_even ((- (1 / 2)) / pow2 (- 1 - 52))) * pow2 (- 1 - 52)"
    by (rule double_round_eval) (simp_all add: pow2_def)
  then show ?thesis
    by (simp add: round_half_even_def Let_def pow2_def)
qed

lemma double_round_200: "double_round (- (1 / 2) / 100) = - (5764607523034235 / 2 ^ 60)"
proof -
  have "double_round (- (1 / 2) / 100)
          = of_int (round_half_even ((- (1 / 2) / 100) / pow2 (- 8 - 52))) * pow2 (- 8 - 52)"
    by (rule double_round_eval) (simp_all add: pow2_def)
  then show ?thesis
    by (simp add: round_half_even_def Let_def pow2_def)
qed

lemma double_round_300: "double_round (60000 * - (5764607523034235 / 2 ^ 60)) = - 300"
proof -
  have "double_round (60000 * - (5764607523034235 / 2 ^ 60))
      = of_int (round_half_even ((60000 * - (5764607523034235 / 2 ^ 60)) / pow2 (8 - 52))) * pow2 (8 - 52)"
    by (rule double_round_eval) (simp_all add: pow2_def)
  then show ?thesis
    by (simp add: round_half_even_def Let_def pow2_def)
qed

lemma interval_value_190_5:
  "interval_value double_round (new_game (381 / 2)) = - 300"
proof -
  have "interval_value double_round (new_game (381 / 2))
          = double_round (60000 * double_round (double_round (190 - 381 / 2) / 100))"
    by (simp only: interval_value_def BASE_CITIZEN_INTERVAL_def new_game_def game.simps)
  also have "190 - 381 / 2 = - (1 / 2 :: real)" by simp
  also have "double_round (60000 * double_round (double_round (- (1 / 2)) / 100))
               = double_round (60000 * double_round (- (1 / 2) / 100))"
    by (simp only: double_round_half)
  also have "\<dots> = double_round (60000 * - (5764607523034235 / 2 ^ 60))"
    by (simp only: double_round_200)
  also have "\<dots> = - 300"
    by (rule double_round_300)
  finally show ?thesis .
qed

lemma new_game_multiplier: "nm_total (citizenIntervalMultiplier (townHall (new_game h))) = 1"
  by (simp add: new_game_def new_townHall_def useNumberMap_def nm_total_def)

text \<open>
  C5, as stated: for every happiness the period is the spec's \<open>periodMs\<close>, the exact
  value truncated down to a multiple of 1000, times the multiplier total. At happiness
  190.5 and multiplier total 1 the value is -300; the remainder of JavaScript has the
  sign of the dividend, so the code gives 0, and truncating down gives -1000. At
  happiness -15 and multiplier total 1 the exact value is 123000, but 2.05 is no
  binary64 number and the code's value is 122999.99999999999, so the code gives 122000
  and the spec's formula 123000.
\<close>

theorem citizenIntervalTime_double_counterexample:
  "citizenIntervalTime_double double_round (new_game (381 / 2)) = 0
   \<and> periodMs_spec (happiness (new_game (381 / 2)))
        (nm_total (citizenIntervalMultiplier (townHall (new_game (381 / 2))))) = - 1000
   \<and> citizenIntervalTime_double double_round (new_game (- 15)) = 122000
   \<and> periodMs_spec (happiness (new_game (- 15)))
        (nm_total (citizenIntervalMultiplier (townHall (new_game (- 15))))) = 123000"
proof -
  have z: "double_round 0 = 0" by (simp add: double_round_def)
  have w: "double_round 122000 = 122000" using double_round_int[of 122000] by simp
  have a: "citizenIntervalTime_double double_round (new_game (381 / 2)) = 0"
    by (simp add: citizenIntervalTime_double_def Let_def interval_value_190_5 new_game_multiplier
          js_rem_def js_trunc_def z)
  have b: "citizenIntervalTime_double double_round (new_game (- 15)) = 122000"
    by (simp add: citizenIntervalTime_double_def Let_def interval_value_minus_15 new_game_multiplier
          js_rem_def js_trunc_def w)
  have c: "periodMs_spec (happiness (new_game (381 / 2)))
        (nm_total (citizenIntervalMultiplier (townHall (new_game (381 / 2))))) = - 1000"
    by (simp add: periodMs_spec_def clampToWholeSeconds_spec_def new_game_def new_townHall_def
          useNumberMap_def nm_total_def)
  have d: "periodMs_spec (happiness (new_game (- 15)))
        (nm_total (citizenIntervalMultiplier (townHall (new_game (- 15))))) = 123000"
    by (simp add: periodMs_spec_def clampToWholeSeconds_spec_def new_game_def new_townHall_def
          useNumberMap_def nm_total_def)
  from a b c d show ?thesis by simp
qed

text \<open>
  C5, amended. The period is the rounded product of the multiplier total and the value
  the code has computed, with its sub-1000 remainder dropped towards zero before the
  product. For every rounding that keeps integers up to \<open>2^53\<close> and signs, as binary64
  does, and every computed value of magnitude up to \<open>2^53\<close>: the difference of the value
  and its remainder is exact; for a happiness of at most 190 it is the computed value
  truncated down to a multiple of 1000, for a happiness above 190 the computed value
  rounded up to a multiple of 1000; with multiplier total 1 the period is that multiple
  itself. Happiness 90 with multiplier total 1 gives exactly 60000.
\<close>

theorem citizenIntervalTime_double_truncates:
  "rounds_like_double rnd \<longrightarrow>
     (\<bar>interval_value rnd g\<bar> \<le> 2 ^ 53 \<longrightarrow>
        (happiness g \<le> 190 \<longrightarrow>
           citizenIntervalTime_double rnd g
             = rnd (clampToWholeSeconds_spec (interval_value rnd g)
                      * nm_total (citizenIntervalMultiplier (townHall g))))
      \<and> (190 < happiness g \<longrightarrow>
           citizenIntervalTime_double rnd g
             = rnd (of_int \<lceil>interval_value rnd g / 1000\<rceil> * 1000
                      * nm_total (citizenIntervalMultiplier (townHall g))))
      \<and> (nm_total (citizenIntervalMultiplier (townHall g)) = 1 \<longrightarrow>
           citizenIntervalTime_double rnd g = of_int (js_trunc (interval_value rnd g / 1000)) * 1000))
   \<and> (happiness g = 90 \<and> nm_total (citizenIntervalMultiplier (townHall g)) = 1 \<longrightarrow>
         citizenIntervalTime_double rnd g = 60000)"
proof (intro impI conjI)
  assume r: "rounds_like_double rnd"
  let ?v = "interval_value rnd g"
  let ?m = "nm_total (citizenIntervalMultiplier (townHall g))"
  {
    assume b: "\<bar>?v\<bar> \<le> 2 ^ 53"
    have t: "rnd (?v - js_rem ?v 1000) = of_int (js_trunc (?v / 1000)) * 1000"
      using r b by (rule whole_seconds_exact)
    {
      assume "happiness g \<le> 190"
      then have "0 \<le> ?v" using interval_value_sign(1)[OF r] by simp
      then show "citizenIntervalTime_double rnd g = rnd (clampToWholeSeconds_spec ?v * ?m)"
        by (simp add: citizenIntervalTime_double_def Let_def t js_trunc_def clampToWholeSeconds_spec_def)
    }
    {
      assume "190 < happiness g"
      then have v: "?v \<le> 0" using interval_value_sign(2)[OF r, of g] by simp
      have "js_trunc (?v / 1000) = \<lceil>?v / 1000\<rceil>"
      proof (cases "?v = 0")
        case True then show ?thesis by (simp add: js_trunc_def)
      next
        case False with v show ?thesis by (simp add: js_trunc_def)
      qed
      then show "citizenIntervalTime_double rnd g = rnd (of_int \<lceil>?v / 1000\<rceil> * 1000 * ?m)"
        by (simp add: citizenIntervalTime_double_def Let_def t)
    }
    {
      assume "?m = 1"
      then have "citizenIntervalTime_double rnd g = rnd (rnd (?v - js_rem ?v 1000))"
        by (simp add: citizenIntervalTime_double_def Let_def)
      also have "\<dots> = rnd (of_int (js_trunc (?v / 1000) * 1000))"
        by (simp add: t)
      also have "\<dots> = of_int (js_trunc (?v / 1000) * 1000)"
      proof -
        have "\<bar>real_of_int (js_trunc (?v / 1000))\<bar> \<le> \<bar>?v / 1000\<bar>" by (rule js_trunc_abs_le)
        then have "\<bar>real_of_int (js_trunc (?v / 1000) * 1000)\<bar> \<le> \<bar>?v\<bar>" by simp
        with b have "\<bar>real_of_int (js_trunc (?v / 1000) * 1000)\<bar> \<le> 2 ^ 53" by linarith
        then have "\<bar>js_trunc (?v / 1000) * 1000\<bar> \<le> 2 ^ 53"
          by (metis of_int_abs of_int_le_iff of_int_numeral of_int_power)
        moreover from r have "\<And>n::int. \<bar>n\<bar> \<le> 2 ^ 53 \<Longrightarrow> rnd (of_int n) = of_int n"
          by (simp add: rounds_like_double_def)
        ultimately show ?thesis by blast
      qed
      finally show "citizenIntervalTime_double rnd g = of_int (js_trunc (?v / 1000)) * 1000"
        by simp
    }
  }
  {
    assume h: "happiness g = 90 \<and> ?m = 1"
    from r have exact: "\<And>n::int. \<bar>n\<bar> \<le> 2 ^ 53 \<Longrightarrow> rnd (of_int n) = of_int n"
      by (simp add: rounds_like_double_def)
    have e100: "rnd 100 = 100" using exact[of 100] by simp
    have e1: "rnd 1 = 1" using exact[of 1] by simp
    have e60000: "rnd 60000 = 60000" using exact[of 60000] by simp
    have e0: "rnd 0 = 0" using exact[of 0] by simp
    have v: "?v = 60000"
      using h by (simp add: interval_value_def BASE_CITIZEN_INTERVAL_def e100 e1 e60000)
    show "citizenIntervalTime_double rnd g = 60000"
      using h by (simp add: citizenIntervalTime_double_def Let_def v js_rem_def js_trunc_def e60000)
  }
qed

theorem citizenIntervalTime_double_truncates_witness:
  "rounds_like_double double_round
   \<and> happiness (new_game 90) = 90
   \<and> nm_total (citizenIntervalMultiplier (townHall (new_game 90))) = 1
   \<and> citizenIntervalTime_double double_round (new_game 90) = 60000
   \<and> \<bar>interval_value double_round (new_game (- 15))\<bar> \<le> 2 ^ 53
   \<and> happiness (new_game (- 15)) \<le> 190
   \<and> clampToWholeSeconds_spec (interval_value double_round (new_game (- 15))) = 122000
   \<and> citizenIntervalTime_double double_round (new_game (- 15)) = 122000
   \<and> \<bar>interval_value double_round (new_game (381 / 2))\<bar> \<le> 2 ^ 53
   \<and> 190 < happiness (new_game (381 / 2))
   \<and> citizenIntervalTime_double double_round (new_game (381 / 2)) = 0"
proof -
  note r = rounds_like_double_double_round
  have w: "double_round 122000 = 122000" using double_round_int[of 122000] by simp
  have z: "double_round 0 = 0" by (simp add: double_round_def)
  have h: "happiness (new_game 90) = 90" "happiness (new_game (- 15)) \<le> 190"
    "190 < happiness (new_game (381 / 2))"
    by (simp_all add: new_game_def)
  have b15: "\<bar>interval_value double_round (new_game (- 15))\<bar> \<le> 2 ^ 53"
    by (simp add: interval_value_minus_15)
  have b190: "\<bar>interval_value double_round (new_game (381 / 2))\<bar> \<le> 2 ^ 53"
    by (simp add: interval_value_190_5)
  have c15: "clampToWholeSeconds_spec (interval_value double_round (new_game (- 15))) = 122000"
    by (simp add: interval_value_minus_15 clampToWholeSeconds_spec_def)
  from citizenIntervalTime_double_truncates[of double_round "new_game 90"] r h(1)
  have a: "citizenIntervalTime_double double_round (new_game 90) = 60000"
    by (simp add: new_game_multiplier)
  from citizenIntervalTime_double_truncates[of double_round "new_game (- 15)"] r h(2) b15
  have b: "citizenIntervalTime_double double_round (new_game (- 15)) = 122000"
    by (simp add: new_game_multiplier c15 w)
  from citizenIntervalTime_double_truncates[of double_round "new_game (381 / 2)"] r h(3) b190
  have c: "citizenIntervalTime_double double_round (new_game (381 / 2)) = 0"
    by (simp add: new_game_multiplier interval_value_190_5 z)
  from r h b15 b190 c15 a b c show ?thesis
    by (simp add: new_game_multiplier)
qed

section \<open>The town hall: the recruitment timer\<close>

lemma citizenIntervalTime_passed [simp]:
  "citizenIntervalTime (g\<lparr>townHall := (townHall g)\<lparr>passedIntervalMs := x\<rparr>\<rparr>) = citizenIntervalTime g"
  by (simp add: citizenIntervalTime_def)

lemma interval_step_running:
  "citizenInterval (townHall g) \<Longrightarrow>
   interval_step g =
     (if citizenIntervalTime g \<le> passedIntervalMs (townHall g) + 100
      then g\<lparr>citizensStore := (citizensStore g)\<lparr>citizenCount := citizenCount (citizensStore g) + 1\<rparr>,
             townHall := (townHall g)\<lparr>passedIntervalMs := 0\<rparr>\<rparr>
      else g\<lparr>townHall := (townHall g)\<lparr>passedIntervalMs := passedIntervalMs (townHall g) + 100\<rparr>\<rparr>)"
  by (simp add: interval_step_def interval_callback_def checkRecruitmentTime_def not_less)

lemma interval_steps_accumulate:
  "citizenInterval (townHall g) \<Longrightarrow>
   passedIntervalMs (townHall g) + of_nat n * 100 < citizenIntervalTime g \<Longrightarrow>
   (interval_step ^^ n) g
     = g\<lparr>townHall := (townHall g)\<lparr>passedIntervalMs := passedIntervalMs (townHall g) + of_nat n * 100\<rparr>\<rparr>"
proof (induction n)
  case 0
  then show ?case by simp
next
  case (Suc n)
  let ?g = "g\<lparr>townHall := (townHall g)\<lparr>passedIntervalMs := passedIntervalMs (townHall g) + of_nat n * 100\<rparr>\<rparr>"
  from Suc.prems have "passedIntervalMs (townHall g) + of_nat n * 100 < citizenIntervalTime g"
    by (simp add: algebra_simps)
  with Suc have steps: "(interval_step ^^ n) g = ?g" by simp
  have "interval_step ?g
          = g\<lparr>townHall := (townHall g)\<lparr>passedIntervalMs := passedIntervalMs (townHall g) + of_nat (Suc n) * 100\<rparr>\<rparr>"
    using Suc.prems by (simp add: interval_step_running algebra_simps)
  with steps show ?case by simp
qed

lemma interval_steps_recruit:
  assumes running: "citizenInterval (townHall g)"
    and start: "passedIntervalMs (townHall g) = 0"
    and period: "citizenIntervalTime g = of_nat (Suc k) * 100"
  shows "(interval_step ^^ Suc k) g
           = g\<lparr>citizensStore := (citizensStore g)\<lparr>citizenCount := citizenCount (citizensStore g) + 1\<rparr>,
                townHall := (townHall g)\<lparr>passedIntervalMs := 0\<rparr>\<rparr>"
proof -
  let ?g = "g\<lparr>townHall := (townHall g)\<lparr>passedIntervalMs := passedIntervalMs (townHall g) + of_nat k * 100\<rparr>\<rparr>"
  have "(interval_step ^^ k) g = ?g"
    using running start period by (intro interval_steps_accumulate) simp_all
  moreover have "interval_step ?g
      = g\<lparr>citizensStore := (citizensStore g)\<lparr>citizenCount := citizenCount (citizensStore g) + 1\<rparr>,
           townHall := (townHall g)\<lparr>passedIntervalMs := 0\<rparr>\<rparr>"
    using running start period by (simp add: interval_step_running algebra_simps)
  ultimately show ?thesis by simp
qed

text \<open>
  C4. While the interval runs, each period of 100 ms adds 100 to the elapsed time and
  then compares it with the period as it is at that moment: when the elapsed time has
  reached the period, one citizen is recruited and the elapsed time is set to 0, and
  otherwise nothing else changes. While no interval runs, nothing changes. The watcher
  of the eligibility stops the interval and sets the elapsed time to 0, and starts a new
  interval exactly when the new value is true. With a period of 60000 and an elapsed
  time of 0, none of the first 599 periods recruits, and the 600th recruits one citizen
  and sets the elapsed time to 0.
\<close>

theorem recruitment_timer:
  "(citizenInterval (townHall g) \<longrightarrow>
      interval_step g =
        (if citizenIntervalTime g \<le> passedIntervalMs (townHall g) + 100
         then g\<lparr>citizensStore := (citizensStore g)\<lparr>citizenCount := citizenCount (citizensStore g) + 1\<rparr>,
                townHall := (townHall g)\<lparr>passedIntervalMs := 0\<rparr>\<rparr>
         else g\<lparr>townHall := (townHall g)\<lparr>passedIntervalMs := passedIntervalMs (townHall g) + 100\<rparr>\<rparr>))
   \<and> (\<not> citizenInterval (townHall g) \<longrightarrow> interval_step g = g)
   \<and> eligibility_watch newValue g
       = g\<lparr>townHall := (townHall g)\<lparr>citizenInterval := newValue, passedIntervalMs := 0\<rparr>\<rparr>
   \<and> (citizenInterval (townHall g) \<and> passedIntervalMs (townHall g) = 0
        \<and> citizenIntervalTime g = 60000 \<longrightarrow>
         (\<forall>n<600. (interval_step ^^ n) g
                    = g\<lparr>townHall := (townHall g)\<lparr>passedIntervalMs := of_nat n * 100\<rparr>\<rparr>)
       \<and> (interval_step ^^ 600) g
           = g\<lparr>citizensStore := (citizensStore g)\<lparr>citizenCount := citizenCount (citizensStore g) + 1\<rparr>,
                townHall := (townHall g)\<lparr>passedIntervalMs := 0\<rparr>\<rparr>)"
proof (intro conjI impI allI)
  assume "citizenInterval (townHall g)"
  then show "interval_step g =
        (if citizenIntervalTime g \<le> passedIntervalMs (townHall g) + 100
         then g\<lparr>citizensStore := (citizensStore g)\<lparr>citizenCount := citizenCount (citizensStore g) + 1\<rparr>,
                townHall := (townHall g)\<lparr>passedIntervalMs := 0\<rparr>\<rparr>
         else g\<lparr>townHall := (townHall g)\<lparr>passedIntervalMs := passedIntervalMs (townHall g) + 100\<rparr>\<rparr>)"
    by (rule interval_step_running)
next
  assume "\<not> citizenInterval (townHall g)"
  then show "interval_step g = g" by (simp add: interval_step_def)
next
  show "eligibility_watch newValue g
       = g\<lparr>townHall := (townHall g)\<lparr>citizenInterval := newValue, passedIntervalMs := 0\<rparr>\<rparr>"
    by (simp add: eligibility_watch_def Let_def)
next
  fix n :: nat
  assume a: "citizenInterval (townHall g) \<and> passedIntervalMs (townHall g) = 0 \<and> citizenIntervalTime g = 60000"
    and n: "n < 600"
  then have "passedIntervalMs (townHall g) + of_nat n * 100 < citizenIntervalTime g" by simp
  with a interval_steps_accumulate[of g n]
  show "(interval_step ^^ n) g = g\<lparr>townHall := (townHall g)\<lparr>passedIntervalMs := of_nat n * 100\<rparr>\<rparr>"
    by simp
next
  assume a: "citizenInterval (townHall g) \<and> passedIntervalMs (townHall g) = 0 \<and> citizenIntervalTime g = 60000"
  then have "citizenIntervalTime g = of_nat (Suc 599) * 100" by simp
  with a interval_steps_recruit[of g 599]
  show "(interval_step ^^ 600) g
           = g\<lparr>citizensStore := (citizensStore g)\<lparr>citizenCount := citizenCount (citizensStore g) + 1\<rparr>,
                townHall := (townHall g)\<lparr>passedIntervalMs := 0\<rparr>\<rparr>"
    by simp
qed

theorem recruitment_timer_witness:
  "citizensCanBeRecruited example_config (new_game 90) = Inr True
   \<and> citizenInterval (townHall (eligibility_watch True (new_game 90)))
   \<and> passedIntervalMs (townHall (eligibility_watch True (new_game 90))) = 0
   \<and> citizenIntervalTime (eligibility_watch True (new_game 90)) = 60000
   \<and> citizenCount (citizensStore ((interval_step ^^ 600) (eligibility_watch True (new_game 90)))) = 6
   \<and> passedIntervalMs (townHall ((interval_step ^^ 600) (eligibility_watch True (new_game 90)))) = 0
   \<and> citizenCount (citizensStore ((interval_step ^^ 599) (eligibility_watch True (new_game 90)))) = 5
   \<and> passedIntervalMs (townHall ((interval_step ^^ 599) (eligibility_watch True (new_game 90)))) = 59900
   \<and> \<not> citizenInterval (townHall (new_game 90))
   \<and> interval_step (new_game 90) = new_game 90"
proof -
  let ?g = "eligibility_watch True (new_game 90)"
  have start: "citizenInterval (townHall ?g) \<and> passedIntervalMs (townHall ?g) = 0
               \<and> citizenIntervalTime ?g = 60000"
    by (simp add: eligibility_watch_def citizenIntervalTime_value js_trunc_def new_game_def new_townHall_def useNumberMap_def nm_total_def)
  have off: "\<not> citizenInterval (townHall (new_game 90))"
    by (simp add: new_game_def new_townHall_def)
  have count: "citizenCount (citizensStore ?g) = 5"
    by (simp add: eligibility_watch_def new_game_def new_citizens_def)
  have eligible: "citizensCanBeRecruited example_config (new_game 90) = Inr True"
    by (simp add: citizensCanBeRecruited_def example_config_def new_game_def new_townHall_def
          new_citizens_def)
  from recruitment_timer[of ?g] start
  have "(\<forall>n<600. (interval_step ^^ n) ?g
                    = ?g\<lparr>townHall := (townHall ?g)\<lparr>passedIntervalMs := of_nat n * 100\<rparr>\<rparr>)
       \<and> (interval_step ^^ 600) ?g
           = ?g\<lparr>citizensStore := (citizensStore ?g)\<lparr>citizenCount := citizenCount (citizensStore ?g) + 1\<rparr>,
                townHall := (townHall ?g)\<lparr>passedIntervalMs := 0\<rparr>\<rparr>"
    by blast
  then have a: "(interval_step ^^ 599) ?g = ?g\<lparr>townHall := (townHall ?g)\<lparr>passedIntervalMs := of_nat 599 * 100\<rparr>\<rparr>"
    and b: "(interval_step ^^ 600) ?g
           = ?g\<lparr>citizensStore := (citizensStore ?g)\<lparr>citizenCount := citizenCount (citizensStore ?g) + 1\<rparr>,
                townHall := (townHall ?g)\<lparr>passedIntervalMs := 0\<rparr>\<rparr>"
    by simp_all
  from recruitment_timer[of "new_game 90"] off have c: "interval_step (new_game 90) = new_game 90"
    by blast
  show ?thesis
    using start off count c eligible by (simp add: a b)
qed

section \<open>The town hall: a period that is not positive\<close>

lemma citizenIntervalTime_nonpos:
  assumes "190 \<le> happiness g" and "nm_total (citizenIntervalMultiplier (townHall g)) = 1"
  shows "citizenIntervalTime g \<le> 0"
proof -
  have "60000 * (190 - happiness g) / 100 / 1000 \<le> 0"
    using assms(1) by simp
  then have "js_trunc (60000 * (190 - happiness g) / 100 / 1000) \<le> 0"
    by (auto simp: js_trunc_def ceiling_le_iff order.antisym)
  then show ?thesis
    using assms(2) by (simp add: citizenIntervalTime_value mult_le_0_iff)
qed

lemma interval_step_recruits:
  assumes "citizenIntervalTime g \<le> 0" and "citizenInterval (townHall g)"
    and "0 \<le> passedIntervalMs (townHall g)"
  shows "interval_step g
           = g\<lparr>citizensStore := (citizensStore g)\<lparr>citizenCount := citizenCount (citizensStore g) + 1\<rparr>,
                townHall := (townHall g)\<lparr>passedIntervalMs := 0\<rparr>\<rparr>"
  using assms by (simp add: interval_step_running)

lemma interval_steps_recruit_each:
  assumes "citizenIntervalTime g \<le> 0" and "citizenInterval (townHall g)"
    and "0 \<le> passedIntervalMs (townHall g)"
  shows "citizenIntervalTime ((interval_step ^^ n) g) \<le> 0
         \<and> citizenInterval (townHall ((interval_step ^^ n) g))
         \<and> 0 \<le> passedIntervalMs (townHall ((interval_step ^^ n) g))
         \<and> citizenCount (citizensStore ((interval_step ^^ n) g))
             = citizenCount (citizensStore g) + int n"
proof (induction n)
  case 0
  from assms show ?case by simp
next
  case (Suc n)
  let ?g = "(interval_step ^^ n) g"
  from Suc have inv: "citizenIntervalTime ?g \<le> 0" "citizenInterval (townHall ?g)"
    "0 \<le> passedIntervalMs (townHall ?g)"
    and count: "citizenCount (citizensStore ?g) = citizenCount (citizensStore g) + int n"
    by simp_all
  have period: "citizenIntervalTime (interval_step ?g) \<le> 0"
    using inv by (simp add: interval_step_recruits citizenIntervalTime_def)
  show ?case
    using inv count period by (simp add: interval_step_recruits[OF inv])
qed

text \<open>
  C10. The period has no lower bound: with a happiness of at least 190 and a multiplier
  total of 1 it is at most 0. Then, while the interval runs (the eligibility holds) and
  the elapsed time is not negative, the first period of 100 ms already recruits a
  citizen and sets the elapsed time to 0, and so does every later one: \<open>n\<close> periods
  recruit \<open>n\<close> citizens.
\<close>

theorem period_without_floor:
  "190 \<le> happiness g \<and> nm_total (citizenIntervalMultiplier (townHall g)) = 1 \<longrightarrow>
     citizenIntervalTime g \<le> 0
     \<and> (citizenInterval (townHall g) \<and> 0 \<le> passedIntervalMs (townHall g) \<longrightarrow>
           interval_step g
             = g\<lparr>citizensStore := (citizensStore g)\<lparr>citizenCount := citizenCount (citizensStore g) + 1\<rparr>,
                  townHall := (townHall g)\<lparr>passedIntervalMs := 0\<rparr>\<rparr>
         \<and> (\<forall>n. citizenCount (citizensStore ((interval_step ^^ n) g))
                    = citizenCount (citizensStore g) + int n))"
  using citizenIntervalTime_nonpos[of g] interval_step_recruits[of g]
    interval_steps_recruit_each[of g]
  by blast

theorem period_without_floor_witness:
  "190 \<le> happiness (eligibility_watch True (new_game 200))
   \<and> nm_total (citizenIntervalMultiplier (townHall (eligibility_watch True (new_game 200)))) = 1
   \<and> citizenInterval (townHall (eligibility_watch True (new_game 200)))
   \<and> 0 \<le> passedIntervalMs (townHall (eligibility_watch True (new_game 200)))
   \<and> citizenIntervalTime (eligibility_watch True (new_game 200)) \<le> 0
   \<and> citizenCount (citizensStore (interval_step (eligibility_watch True (new_game 200)))) = 6
   \<and> citizenCount (citizensStore ((interval_step ^^ 10) (eligibility_watch True (new_game 200)))) = 15"
proof -
  let ?g = "eligibility_watch True (new_game 200)"
  have hyps: "190 \<le> happiness ?g" "nm_total (citizenIntervalMultiplier (townHall ?g)) = 1"
    "citizenInterval (townHall ?g)" "0 \<le> passedIntervalMs (townHall ?g)"
    by (simp_all add: eligibility_watch_def new_game_def new_townHall_def useNumberMap_def nm_total_def)
  have count: "citizenCount (citizensStore ?g) = 5"
    by (simp add: eligibility_watch_def new_game_def new_citizens_def)
  from period_without_floor[of ?g] hyps
  have "citizenIntervalTime ?g \<le> 0"
    and "interval_step ?g
             = ?g\<lparr>citizensStore := (citizensStore ?g)\<lparr>citizenCount := citizenCount (citizensStore ?g) + 1\<rparr>,
                  townHall := (townHall ?g)\<lparr>passedIntervalMs := 0\<rparr>\<rparr>"
    and "citizenCount (citizensStore ((interval_step ^^ 10) ?g)) = citizenCount (citizensStore ?g) + int 10"
    by blast+
  with hyps count show ?thesis by simp
qed

section \<open>Number maps\<close>

lemma nm_get_nm_set: "nm_get (nm_set k v m) k' = (if k' = k then Some v else nm_get m k')"
  by (induction m) (auto simp: nm_get_def)

lemma capacity_entries_setRevenue [simp]:
  "capacity_entries (setRevenue k v r) = capacity_entries r"
  by (simp add: setRevenue_def)

lemma rvalue_setRevenue [simp]: "rvalue (setRevenue k v r) = rvalue r"
  by (simp add: setRevenue_def)

lemma rvalue_setCapacity [simp]: "rvalue (setCapacity k v r) = rvalue r"
  by (simp add: setCapacity_def)

lemma revenue_entries_setCapacity [simp]:
  "revenue_entries (setCapacity k v r) = revenue_entries r"
  by (simp add: setCapacity_def)

lemma revenue_get_setRevenue:
  "nm_get (revenue_entries (setRevenue k v r)) k'
     = (if k' = k then Some v else nm_get (revenue_entries r) k')"
  by (simp add: setRevenue_def nm_get_nm_set)

lemma capacity_get_setCapacity:
  "nm_get (capacity_entries (setCapacity k v r)) k'
     = (if k' = k then Some v else nm_get (capacity_entries r) k')"
  by (simp add: setCapacity_def nm_get_nm_set)

section \<open>The revenue feed\<close>

lemma revenue_feed_resources:
  "resources (revenue_feed g) (jobResourceMap j)
     = setRevenue (''citizens.'' @ job_name j)
         (of_int (jobs (citizensStore g) j) * nm_total (jobIncrements (citizensStore g) j))
         (resources g (jobResourceMap j))"
  by (cases j) (simp_all add: revenue_feed_def jobKeys_def)

text \<open>
  C8. The jobs map one to one onto the resources. One run of the revenue feed leaves,
  for every job, the mapped resource with the revenue contribution under the key
  \<open>citizens.<job>\<close> equal to the job's assigned count times the total of the job's
  per-citizen revenue map. The run calls \<open>setRevenue\<close> once on that resource: its other
  revenue contributions, its capacity contributions and its stock stay, and so do the
  citizens and the town hall.
\<close>

theorem revenue_feed_sets:
  "bij jobResourceMap
   \<and> nm_get (revenue_entries (resources (revenue_feed g) (jobResourceMap j)))
        (''citizens.'' @ job_name j)
       = Some (of_int (jobs (citizensStore g) j) * nm_total (jobIncrements (citizensStore g) j))
   \<and> (\<forall>k. k \<noteq> ''citizens.'' @ job_name j \<longrightarrow>
          nm_get (revenue_entries (resources (revenue_feed g) (jobResourceMap j))) k
            = nm_get (revenue_entries (resources g (jobResourceMap j))) k)
   \<and> capacity_entries (resources (revenue_feed g) (jobResourceMap j))
       = capacity_entries (resources g (jobResourceMap j))
   \<and> rvalue (resources (revenue_feed g) (jobResourceMap j)) = rvalue (resources g (jobResourceMap j))
   \<and> citizensStore (revenue_feed g) = citizensStore g
   \<and> townHall (revenue_feed g) = townHall g"
proof -
  have "inj jobResourceMap"
  proof (rule injI)
    fix x y assume "jobResourceMap x = jobResourceMap y"
    then show "x = y" by (cases x; cases y) simp_all
  qed
  moreover have "surj jobResourceMap"
  proof (rule surjI)
    fix r show "jobResourceMap (case r of Food \<Rightarrow> Farmers | Gold \<Rightarrow> Merchants | Wood \<Rightarrow> Lumberjacks
                  | Iron \<Rightarrow> Miners | Labour \<Rightarrow> Builders) = r"
      by (cases r) simp_all
  qed
  ultimately have "bij jobResourceMap" by (simp add: bij_def)
  moreover have "citizensStore (revenue_feed g) = citizensStore g" "townHall (revenue_feed g) = townHall g"
    by (simp_all add: revenue_feed_def)
  ultimately show ?thesis
    by (simp add: revenue_feed_resources revenue_get_setRevenue)
qed

theorem revenue_feed_sets_witness:
  "nm_get (revenue_entries (resources (revenue_feed starving_game) Food)) ''citizens.farmers'' = Some 2
   \<and> ''citizens.idle'' \<noteq> ''citizens.'' @ job_name Farmers
   \<and> nm_get (revenue_entries (resources (revenue_feed starving_game) Food)) ''citizens.idle'' = None"
  using revenue_feed_sets[of starving_game Farmers]
  by (simp add: starving_game_def new_game_def new_citizens_def blank_resources_def useNumberMap_def
        nm_total_def nm_get_def)

section \<open>The starvation listener\<close>

lemma tick_resource_no_listener:
  "tick_resource key [] g =
     g\<lparr>resources := (resources g)(key := (resources g key)
          \<lparr>rvalue := max 0 (min (rvalue (resources g key) + nm_total (revenue_entries (resources g key)))
                               (capacity (resources g key)))\<rparr>)\<rparr>"
  by (simp add: tick_resource_def Let_def)

lemma tick_resource_one_listener:
  "tick_resource key [listener] g = listener (tick_resource key [] g)"
  by (simp add: tick_resource_def Let_def)

text \<open>
  C6. The listener takes exactly one citizen when the food stock it reads is below
  zero, and otherwise leaves the citizen count as it is; it writes nothing else.
  Registered on the tick of the food resource, it runs on the state the tick leaves
  after adding the revenue and clamping the stock, and it is the stock of that state
  that decides.
\<close>

theorem starvation_listener_decrements:
  "citizenCount (citizensStore (starvation_listener g))
     = (if rvalue (resources g Food) < 0 then citizenCount (citizensStore g) - 1
        else citizenCount (citizensStore g))
   \<and> jobs (citizensStore (starvation_listener g)) = jobs (citizensStore g)
   \<and> jobIncrements (citizensStore (starvation_listener g)) = jobIncrements (citizensStore g)
   \<and> resources (starvation_listener g) = resources g
   \<and> townHall (starvation_listener g) = townHall g
   \<and> happiness (starvation_listener g) = happiness g
   \<and> tick_resource Food [starvation_listener] g = starvation_listener (tick_resource Food [] g)
   \<and> citizenCount (citizensStore (tick_resource Food [starvation_listener] g))
       = (if rvalue (resources (tick_resource Food [] g) Food) < 0
          then citizenCount (citizensStore g) - 1
          else citizenCount (citizensStore g))"
  by (simp add: starvation_listener_def tick_resource_one_listener tick_resource_no_listener)

theorem starvation_listener_decrements_witness:
  "rvalue (resources starving_game Food) < 0
   \<and> citizenCount (citizensStore starving_game) = 5
   \<and> citizenCount (citizensStore (starvation_listener starving_game)) = 4
   \<and> rvalue (resources (tick_resource Food [] starving_game) Food) = 4
   \<and> citizenCount (citizensStore (tick_resource Food [starvation_listener] starving_game)) = 5"
proof -
  have stock: "rvalue (resources starving_game Food) = - 3"
    and count: "citizenCount (citizensStore starving_game) = 5"
    by (simp_all add: starving_game_def new_game_def new_citizens_def)
  have ticked: "rvalue (resources (tick_resource Food [] starving_game) Food) = 4"
    by (simp add: tick_resource_no_listener starving_game_def capacity_def nm_total_def)
  from starvation_listener_decrements[of starving_game]
  have "citizenCount (citizensStore (starvation_listener starving_game))
          = (if rvalue (resources starving_game Food) < 0
             then citizenCount (citizensStore starving_game) - 1
             else citizenCount (citizensStore starving_game))"
    and "citizenCount (citizensStore (tick_resource Food [starvation_listener] starving_game))
          = (if rvalue (resources (tick_resource Food [] starving_game) Food) < 0
             then citizenCount (citizensStore starving_game) - 1
             else citizenCount (citizensStore starving_game))"
    by blast+
  then show ?thesis by (simp add: stock count ticked)
qed

section \<open>The watcher of the level\<close>

lemma nm_get_Nil: "nm_get [] k = None"
  by (simp add: nm_get_def)

lemma level_forEach_missing:
  "config lv = None \<Longrightarrow> keys \<noteq> [] \<Longrightarrow> level_forEach config lv keys res = Inl TypeError"
  by (cases keys) simp_all

lemma level_forEach_present:
  "config lv = Some lc \<Longrightarrow>
   level_forEach config lv keys res
     = Inr (foldl (\<lambda>res key. res(key := setRevenue ''buildings.townHall'' (revenue lc key)
                                  (setCapacity (resource_name key) (capacities lc key) (res key))))
                  res keys)"
  by (induction keys arbitrary: res) simp_all

lemma level_watch_present:
  assumes "config (level (townHall g)) = Some lc"
  shows "level_watch config g
           = Inr (g\<lparr>resources := (\<lambda>key. setRevenue ''buildings.townHall'' (revenue lc key)
                     (setCapacity (resource_name key) (capacities lc key) (resources g key)))\<rparr>)"
proof -
  have "foldl (\<lambda>res key. res(key := setRevenue ''buildings.townHall'' (revenue lc key)
                                  (setCapacity (resource_name key) (capacities lc key) (res key))))
              (resources g) resourceKeys
          = (\<lambda>key. setRevenue ''buildings.townHall'' (revenue lc key)
                     (setCapacity (resource_name key) (capacities lc key) (resources g key)))"
    (is "?l = ?r")
  proof
    fix key show "?l key = ?r key"
      by (cases key) (simp_all add: resourceKeys_def)
  qed
  with assms show ?thesis
    by (simp add: level_watch_def level_forEach_present)
qed

text \<open>
  C7, as stated: the capacity contribution is keyed by the controller's id. On a new
  game at level 1, with a table that gives every resource the capacity 100, the watcher
  leaves no capacity contribution of food under \<open>buildings.townHall\<close>, the id under which
  it sets the revenue; the capacity 100 of food is under the key \<open>food\<close> and that of
  gold under the key \<open>gold\<close>, so no one id holds the capacity of every resource.
\<close>

theorem level_watch_capacity_key_counterexample:
  "\<not> isl (level_watch example_config (new_game 90))
   \<and> nm_get (capacity_entries (resources (projr (level_watch example_config (new_game 90))) Food))
        ''buildings.townHall'' = None
   \<and> nm_get (capacity_entries (resources (projr (level_watch example_config (new_game 90))) Food))
        ''food'' = Some 100
   \<and> nm_get (capacity_entries (resources (projr (level_watch example_config (new_game 90))) Gold))
        ''food'' = None
   \<and> nm_get (capacity_entries (resources (projr (level_watch example_config (new_game 90))) Gold))
        ''gold'' = Some 100
   \<and> nm_get (revenue_entries (resources (projr (level_watch example_config (new_game 90))) Food))
        ''buildings.townHall'' = Some 1"
proof -
  have "example_config (level (townHall (new_game 90)))
          = Some \<lparr>capacities = (\<lambda>_. 100), revenue = (\<lambda>_. 1), citizens = 10\<rparr>"
    by (simp add: example_config_def new_game_def new_townHall_def)
  then have "level_watch example_config (new_game 90)
          = Inr ((new_game 90)\<lparr>resources :=
                   (\<lambda>key. setRevenue ''buildings.townHall'' 1
                            (setCapacity (resource_name key) 100 (resources (new_game 90) key)))\<rparr>)"
    using level_watch_present[of example_config "new_game 90"
            "\<lparr>capacities = (\<lambda>_. 100), revenue = (\<lambda>_. 1), citizens = 10\<rparr>"]
    by simp
  then show ?thesis
    by (simp add: capacity_get_setCapacity revenue_get_setRevenue new_game_def blank_resources_def
          nm_get_Nil)
qed

text \<open>
  C7, amended. When the level table has an entry for the level, the watcher sets, for
  every resource, the capacity contribution under the resource's own key to the
  entry's capacity of that resource, and the revenue contribution under
  \<open>buildings.townHall\<close> to the entry's revenue of that resource; the other
  contributions, the stocks, the citizens and the town hall stay. When the table has no
  entry for the level, the watcher raises a TypeError.
\<close>

theorem level_watch_sets:
  "(config (level (townHall g)) = Some lc \<longrightarrow>
      \<not> isl (level_watch config g)
    \<and> (\<forall>key.
          nm_get (capacity_entries (resources (projr (level_watch config g)) key)) (resource_name key)
            = Some (capacities lc key)
        \<and> nm_get (revenue_entries (resources (projr (level_watch config g)) key)) ''buildings.townHall''
            = Some (revenue lc key)
        \<and> (\<forall>k. k \<noteq> resource_name key \<longrightarrow>
              nm_get (capacity_entries (resources (projr (level_watch config g)) key)) k
                = nm_get (capacity_entries (resources g key)) k)
        \<and> (\<forall>k. k \<noteq> ''buildings.townHall'' \<longrightarrow>
              nm_get (revenue_entries (resources (projr (level_watch config g)) key)) k
                = nm_get (revenue_entries (resources g key)) k)
        \<and> rvalue (resources (projr (level_watch config g)) key) = rvalue (resources g key))
    \<and> citizensStore (projr (level_watch config g)) = citizensStore g
    \<and> townHall (projr (level_watch config g)) = townHall g
    \<and> happiness (projr (level_watch config g)) = happiness g)
   \<and> (config (level (townHall g)) = None \<longrightarrow> level_watch config g = Inl TypeError)"
proof (intro conjI impI)
  assume "config (level (townHall g)) = None"
  then show "level_watch config g = Inl TypeError"
    by (simp add: level_watch_def level_forEach_missing resourceKeys_def)
qed (simp_all add: level_watch_present capacity_get_setCapacity revenue_get_setRevenue)

theorem level_watch_sets_witness:
  "example_config (level (townHall (new_game 90)))
     = Some \<lparr>capacities = (\<lambda>_. 100), revenue = (\<lambda>_. 1), citizens = 10\<rparr>
   \<and> nm_get (capacity_entries (resources (projr (level_watch example_config (new_game 90))) Gold))
        ''gold'' = Some 100
   \<and> nm_get (revenue_entries (resources (projr (level_watch example_config (new_game 90))) Gold))
        ''buildings.townHall'' = Some 1
   \<and> example_config (level (townHall (upgrade (new_game 90)))) = None
   \<and> level_watch example_config (upgrade (new_game 90)) = Inl TypeError"
proof -
  have a: "example_config (level (townHall (new_game 90)))
          = Some \<lparr>capacities = (\<lambda>_. 100), revenue = (\<lambda>_. 1), citizens = 10\<rparr>"
    by (simp add: example_config_def new_game_def new_townHall_def)
  have b: "example_config (level (townHall (upgrade (new_game 90)))) = None"
    by (simp add: example_config_def upgrade_def upgradeable_def capacity_def nm_total_def
          new_game_def new_townHall_def blank_resources_def)
  from level_watch_sets[of example_config "new_game 90"
         "\<lparr>capacities = (\<lambda>_. 100), revenue = (\<lambda>_. 1), citizens = 10\<rparr>"] a
  have every: "\<forall>key.
      nm_get (capacity_entries (resources (projr (level_watch example_config (new_game 90))) key))
        (resource_name key)
        = Some (capacities \<lparr>capacities = (\<lambda>_. 100), revenue = (\<lambda>_. 1), citizens = 10\<rparr> key)
      \<and> nm_get (revenue_entries (resources (projr (level_watch example_config (new_game 90))) key))
          ''buildings.townHall''
        = Some (revenue \<lparr>capacities = (\<lambda>_. 100), revenue = (\<lambda>_. 1), citizens = 10\<rparr> key)"
    by blast
  from spec[OF every, of Gold]
  have "nm_get (capacity_entries (resources (projr (level_watch example_config (new_game 90))) Gold))
          ''gold'' = Some 100"
    and "nm_get (revenue_entries (resources (projr (level_watch example_config (new_game 90))) Gold))
          ''buildings.townHall'' = Some 1"
    by simp_all
  moreover from level_watch_sets[of example_config "upgrade (new_game 90)"] b
  have "level_watch example_config (upgrade (new_game 90)) = Inl TypeError"
    by blast
  ultimately show ?thesis using a b by simp
qed

end
